theory Spec2Isabelle
  imports Main
begin

section \<open>CommunityHub: authorization middleware, controllers and the client session bridge\<close>

text \<open>
  The backend is an Express application over Firestore and Firebase Auth. The parts
  embedded here are the authentication middleware (\<open>middleware/auth\<close>, and its sibling
  \<open>authenticateUser\<close>/\<open>requireAdmin\<close>), the response helpers, the event RSVP and resident
  controllers, and the client's \<open>AuthProvider\<close>.

  The external collaborators are parameters of the model:
  \<^item> the clock: \<open>new Date().toISOString()\<close> is read through a function from the index
    of the reading within one request to the string it returned;
  \<^item> Firebase Auth: \<open>auth.verifyIdToken\<close> is a function from the token to a provider
    error or the decoded token;
  \<^item> Firestore: a collection is a map from document ids to documents, \<open>update\<close> merges
    fields into an existing document, and a call that rejects is a \<open>db_fault\<close>.
\<close>

subsection \<open>JSON values and JavaScript truthiness\<close>

datatype json =
    JNull
  | JBool bool
  | JNum int
  | JStr string
  | JArr "json list"
  | JObj "(string \<times> json) list"

text \<open>A missing key or \<open>undefined\<close> is \<open>None\<close>.\<close>

fun truthy :: "json option \<Rightarrow> bool" where
  "truthy None = False"
| "truthy (Some JNull) = False"
| "truthy (Some (JBool b)) = b"
| "truthy (Some (JNum n)) = (n \<noteq> 0)"
| "truthy (Some (JStr s)) = (s \<noteq> [])"
| "truthy (Some (JArr xs)) = True"
| "truthy (Some (JObj kvs)) = True"

definition startsWith :: "string \<Rightarrow> string \<Rightarrow> bool" where
  "startsWith s p = (take (length p) s = p)"

text \<open>\<open>String.prototype.split\<close> with a one-character separator.\<close>

fun split :: "char \<Rightarrow> string \<Rightarrow> string list" where
  "split c [] = [[]]"
| "split c (x # xs) =
     (if x = c then [] # split c xs
      else (case split c xs of [] \<Rightarrow> [[x]] | w # ws \<Rightarrow> (x # w) # ws))"

type_synonym clock = "nat \<Rightarrow> string"

subsection \<open>Requests and responses\<close>

text \<open>\<open>req.user\<close> as the middleware declares it: \<open>{ uid: string; email?: string; role?: string }\<close>.\<close>

record req_user =
  uid :: string
  email :: "string option"
  role :: "string option"

record request =
  authorization :: "string option"
  user :: "req_user option"
  params_id :: string
  body :: "string \<rightharpoonup> json"

text \<open>\<open>res.status(code).json(obj)\<close>: the status and the object's keys in source order.\<close>

record response =
  status :: nat
  json_body :: "(string \<times> json) list"

subsection \<open>Response helpers (\<open>utils/response-handler\<close>, \<open>utils/error-handler\<close>)\<close>

text \<open>
  The helpers have default parameters; an omitted or \<open>undefined\<close> argument is \<open>None\<close>.
  The first argument is the clock reading taken by \<open>new Date().toISOString()\<close>.
\<close>

definition successResponse :: "string \<Rightarrow> nat option \<Rightarrow> string option \<Rightarrow> json option \<Rightarrow> response" where
  "successResponse ts statusCode message data =
     \<lparr> status = (case statusCode of None \<Rightarrow> 200 | Some c \<Rightarrow> c),
       json_body =
         [ (''success'', JBool True),
           (''message'', JStr (case message of None \<Rightarrow> ''Success'' | Some m \<Rightarrow> m)),
           (''data'', (case data of None \<Rightarrow> JNull | Some d \<Rightarrow> d)),
           (''timestamp'', JStr ts) ] \<rparr>"

definition errorResponse :: "string \<Rightarrow> nat option \<Rightarrow> string option \<Rightarrow> json option \<Rightarrow> response" where
  "errorResponse ts statusCode message error =
     \<lparr> status = (case statusCode of None \<Rightarrow> 500 | Some c \<Rightarrow> c),
       json_body =
         [ (''success'', JBool False),
           (''message'', JStr (case message of None \<Rightarrow> ''Internal Server Error'' | Some m \<Rightarrow> m)),
           (''error'', (case error of None \<Rightarrow> JNull | Some e \<Rightarrow> e)),
           (''timestamp'', JStr ts) ] \<rparr>"

text \<open>The \<open>errorResponse\<close> of \<open>utils/error-handler\<close>, used by \<open>asyncHandler\<close>.\<close>

definition errorResponse_eh :: "string \<Rightarrow> nat option \<Rightarrow> string option \<Rightarrow> json option \<Rightarrow> response" where
  "errorResponse_eh ts statusCode message errors =
     \<lparr> status = (case statusCode of None \<Rightarrow> 500 | Some c \<Rightarrow> c),
       json_body =
         [ (''success'', JBool False),
           (''message'', JStr (case message of None \<Rightarrow> ''Server Error'' | Some m \<Rightarrow> m)),
           (''errors'', (case errors of None \<Rightarrow> JNull | Some e \<Rightarrow> e)),
           (''timestamp'', JStr ts) ] \<rparr>"

subsection \<open>Firestore\<close>

text \<open>
  A database call of the request that rejects: either the first read (\<open>get\<close>) or the
  write (\<open>update\<close>), with the message of the error thrown.
\<close>

datatype db_fault = NoFault | GetFails string | UpdateFails string

text \<open>
  Reading a property of \<open>req.user\<close> when no middleware attached a user throws a \<open>TypeError\<close>
  inside the controller's \<open>try\<close>. These are the messages Node gives it: for \<open>req.user!.uid\<close>,
  for \<open>req.user!.role\<close> and for \<open>const { uid } = req.user!\<close>.
\<close>

definition uid_of_undefined :: string where
  "uid_of_undefined = ''Cannot read properties of undefined (reading 'uid')''"

definition role_of_undefined :: string where
  "role_of_undefined = ''Cannot read properties of undefined (reading 'role')''"

definition uid_not_destructured :: string where
  "uid_not_destructured = ''Cannot destructure property 'uid' of 'req.user' as it is undefined.''"

subsection \<open>Events (\<open>controllers/eventController\<close>)\<close>

text \<open>The \<open>Event\<close> interface; the document id is the key of the collection.\<close>

record event =
  title :: string
  description :: string
  date :: string
  endDate :: "string option"
  location :: string
  maxAttendees :: "int option"
  image :: "string option"
  isPublic :: bool
  attendees :: "string list option"
  createdBy :: string
  createdAt :: string
  updatedAt :: string

type_synonym events = "string \<rightharpoonup> event"

text \<open>\<open>eventData?.attendees || []\<close>\<close>

definition attendees_or_empty :: "event \<Rightarrow> string list" where
  "attendees_or_empty eventData = (case attendees eventData of None \<Rightarrow> [] | Some xs \<Rightarrow> xs)"

text \<open>\<open>eventData?.maxAttendees && attendees.length >= eventData.maxAttendees\<close>\<close>

definition reached_maximum :: "event \<Rightarrow> string list \<Rightarrow> bool" where
  "reached_maximum eventData atts =
     (case maxAttendees eventData of
        None \<Rightarrow> False
      | Some m \<Rightarrow> m \<noteq> 0 \<and> int (length atts) \<ge> m)"

definition rsvpToEvent :: "clock \<Rightarrow> db_fault \<Rightarrow> events \<Rightarrow> request \<Rightarrow> response \<times> events" where
  "rsvpToEvent clk fault evs req =
     (let eventId = params_id req;
          failed = (\<lambda>ts m. (errorResponse ts (Some 500) (Some ''Error RSVP'ing to event'') (Some (JStr m)), evs))
      in case user req of
           None \<Rightarrow> failed (clk 0) uid_of_undefined
         | Some u \<Rightarrow>
             (let userId = uid u in
              case fault of
                GetFails m \<Rightarrow> failed (clk 0) m
              | _ \<Rightarrow>
                (case evs eventId of
                   None \<Rightarrow> (errorResponse (clk 0) (Some 404) (Some ''Event not found'') None, evs)
                 | Some eventData \<Rightarrow>
                     (let atts = attendees_or_empty eventData in
                      if userId \<in> set atts then
                        (errorResponse (clk 0) (Some 400) (Some ''You have already RSVP'd to this event'') None, evs)
                      else if reached_maximum eventData atts then
                        (errorResponse (clk 0) (Some 400) (Some ''Event has reached maximum attendees'') None, evs)
                      else
                        (case fault of
                           UpdateFails m \<Rightarrow> failed (clk 1) m
                         | _ \<Rightarrow>
                           (successResponse (clk 1) (Some 200) (Some ''RSVP successful'') None,
                            evs(eventId \<mapsto> eventData\<lparr>attendees := Some (atts @ [userId]), updatedAt := clk 0\<rparr>)))))))"

definition cancelRsvp :: "clock \<Rightarrow> db_fault \<Rightarrow> events \<Rightarrow> request \<Rightarrow> response \<times> events" where
  "cancelRsvp clk fault evs req =
     (let eventId = params_id req;
          failed = (\<lambda>ts m. (errorResponse ts (Some 500) (Some ''Error canceling RSVP'') (Some (JStr m)), evs))
      in case user req of
           None \<Rightarrow> failed (clk 0) uid_of_undefined
         | Some u \<Rightarrow>
             (let userId = uid u in
              case fault of
                GetFails m \<Rightarrow> failed (clk 0) m
              | _ \<Rightarrow>
                (case evs eventId of
                   None \<Rightarrow> (errorResponse (clk 0) (Some 404) (Some ''Event not found'') None, evs)
                 | Some eventData \<Rightarrow>
                     (let atts = attendees_or_empty eventData in
                      if userId \<notin> set atts then
                        (errorResponse (clk 0) (Some 400) (Some ''You have not RSVP'd to this event'') None, evs)
                      else
                        (case fault of
                           UpdateFails m \<Rightarrow> failed (clk 1) m
                         | _ \<Rightarrow>
                           (successResponse (clk 1) (Some 200) (Some ''RSVP canceled successfully'') None,
                            evs(eventId \<mapsto> eventData\<lparr>attendees := Some (filter (\<lambda>i. i \<noteq> userId) atts),
                                                       updatedAt := clk 0\<rparr>)))))))"

subsection \<open>Residents (\<open>controllers/residentController\<close>)\<close>

text \<open>
  A document of the \<open>users\<close> collection is schemaless: a map from field names to values.
  \<open>update\<close> merges the given fields into the stored document.
\<close>

type_synonym doc = "string \<rightharpoonup> json"
type_synonym users = "string \<rightharpoonup> doc"

text \<open>\<open>if (v) updateData.k = v\<close>\<close>

definition set_if_truthy :: "doc \<Rightarrow> string \<Rightarrow> json option \<Rightarrow> doc" where
  "set_if_truthy updateData k v =
     (case v of
        None \<Rightarrow> updateData
      | Some j \<Rightarrow> if truthy (Some j) then updateData(k \<mapsto> j) else updateData)"

definition updateResident :: "clock \<Rightarrow> db_fault \<Rightarrow> users \<Rightarrow> request \<Rightarrow> response \<times> users" where
  "updateResident clk fault usrs req =
     (let residentId = params_id req;
          name = body req ''name'';
          phoneNumber = body req ''phoneNumber'';
          flatNumber = body req ''flatNumber'';
          blockNumber = body req ''blockNumber'';
          failed = (\<lambda>ts m. (errorResponse ts (Some 500) (Some ''Error updating resident'') (Some (JStr m)), usrs))
      in case user req of
           None \<Rightarrow> failed (clk 0) role_of_undefined
         | Some u \<Rightarrow>
             if role u \<noteq> Some ''admin'' \<and> uid u \<noteq> residentId then
               (errorResponse (clk 0) (Some 403) (Some ''Not authorized to update this resident profile'') None, usrs)
             else
               (case fault of
                  GetFails m \<Rightarrow> failed (clk 0) m
                | _ \<Rightarrow>
                  (case usrs residentId of
                     None \<Rightarrow> (errorResponse (clk 0) (Some 404) (Some ''Resident not found'') None, usrs)
                   | Some residentDoc \<Rightarrow>
                       (let updateData0 = [''updatedAt'' \<mapsto> JStr (clk 0)];
                            updateData1 = set_if_truthy updateData0 ''displayName'' name;
                            updateData2 = set_if_truthy updateData1 ''phoneNumber'' phoneNumber;
                            updateData =
                              (if role u = Some ''admin'' then
                                 set_if_truthy (set_if_truthy updateData2 ''flatNumber'' flatNumber)
                                   ''blockNumber'' blockNumber
                               else updateData2)
                        in case fault of
                             UpdateFails m \<Rightarrow> failed (clk 1) m
                           | _ \<Rightarrow>
                             (successResponse (clk 1) (Some 200) (Some ''Resident updated successfully'') None,
                              usrs(residentId \<mapsto> residentDoc ++ updateData))))))"

subsection \<open>Authentication middleware\<close>

record env =
  NODE_ENV :: "string option"

text \<open>What \<open>auth.verifyIdToken\<close> resolves to, and the error it rejects with.\<close>

record decoded_token =
  tok_uid :: string
  tok_email :: "string option"
  tok_role :: "string option"

record provider_error =
  err_code :: string
  err_message :: string

type_synonym verifier = "string \<Rightarrow> provider_error + decoded_token"

text \<open>
  A middleware either calls \<open>next()\<close> with the request as it left it, or responds.
  The second component of a run of the authentication middleware lists the tokens it
  submitted to \<open>auth.verifyIdToken\<close>.
\<close>

datatype mw_outcome = Next request | Respond response

text \<open>\<open>authHeader.split(' ')[1]\<close>; \<open>None\<close> is \<open>undefined\<close>.\<close>

definition bearer_token :: "string \<Rightarrow> string option" where
  "bearer_token authHeader =
     (case split CHR '' '' authHeader of
        _ # token # _ \<Rightarrow> Some token
      | _ \<Rightarrow> None)"

text \<open>\<open>decodedToken.role || dflt\<close>\<close>

definition role_or :: "string option \<Rightarrow> string \<Rightarrow> string" where
  "role_or r dflt = (case r of None \<Rightarrow> dflt | Some s \<Rightarrow> if s \<noteq> [] then s else dflt)"

definition dev_user :: req_user where
  "dev_user = \<lparr> uid = ''dev-user-123'', email = Some ''dev@example.com'', role = Some ''admin'' \<rparr>"

definition plain_error :: "nat \<Rightarrow> string \<Rightarrow> response" where
  "plain_error code msg =
     \<lparr> status = code, json_body = [ (''success'', JBool False), (''message'', JStr msg) ] \<rparr>"

text \<open>
  \<open>verifyAuth\<close> of \<open>middleware/auth\<close>. An \<open>undefined\<close> token cannot arise after the
  \<open>startsWith('Bearer ')\<close> check (lemma \<open>bearer_token_defined\<close>); there
  \<open>token.startsWith\<close> would throw into the inner \<open>catch\<close>. The outer \<open>catch\<close> (500) guards
  code that does not throw.
\<close>

definition verifyAuth :: "env \<Rightarrow> verifier \<Rightarrow> request \<Rightarrow> mw_outcome \<times> string list" where
  "verifyAuth e verifyIdToken req =
     (let denied = Respond (plain_error 401 ''Access denied. No token provided.'');
          invalid = Respond (plain_error 403 ''Invalid token.'')
      in case authorization req of
           None \<Rightarrow> (denied, [])
         | Some authHeader \<Rightarrow>
             if authHeader = [] \<or> \<not> startsWith authHeader ''Bearer '' then (denied, [])
             else
               (case bearer_token authHeader of
                  None \<Rightarrow> (invalid, [])
                | Some token \<Rightarrow>
                    if NODE_ENV e = Some ''development'' \<and> startsWith token ''simulated_token_'' then
                      (Next (req\<lparr>user := Some dev_user\<rparr>), [])
                    else
                      (case verifyIdToken token of
                         Inl error \<Rightarrow> (invalid, [token])
                       | Inr decodedToken \<Rightarrow>
                           (Next (req\<lparr>user := Some \<lparr> uid = tok_uid decodedToken,
                                                     email = tok_email decodedToken,
                                                     role = Some (role_or (tok_role decodedToken) ''user'') \<rparr>\<rparr>),
                            [token]))))"

definition verifyAdmin :: "request \<Rightarrow> mw_outcome" where
  "verifyAdmin req =
     (case user req of
        None \<Rightarrow> Respond (plain_error 401 ''Access denied. Authentication required.'')
      | Some u \<Rightarrow>
          if role u \<noteq> Some ''admin'' then
            Respond (plain_error 403 ''Access denied. Admin privileges required.'')
          else Next req)"

text \<open>The sibling middleware: \<open>authenticateUser\<close> and \<open>requireAdmin\<close>.\<close>

definition authenticateUser :: "verifier \<Rightarrow> request \<Rightarrow> mw_outcome \<times> string list" where
  "authenticateUser verifyIdToken req =
     (let denied = Respond (plain_error 401 ''Access denied. No token provided.'');
          invalid = Respond (plain_error 403 ''Invalid or expired token'')
      in case authorization req of
           None \<Rightarrow> (denied, [])
         | Some authHeader \<Rightarrow>
             if authHeader = [] \<or> \<not> startsWith authHeader ''Bearer '' then (denied, [])
             else
               (case bearer_token authHeader of
                  None \<Rightarrow> (invalid, [])
                | Some token \<Rightarrow>
                    (case verifyIdToken token of
                       Inl error \<Rightarrow> (invalid, [token])
                     | Inr decodedToken \<Rightarrow>
                         (Next (req\<lparr>user := Some \<lparr> uid = tok_uid decodedToken,
                                                   email = tok_email decodedToken,
                                                   role = Some (role_or (tok_role decodedToken) ''resident'') \<rparr>\<rparr>),
                          [token]))))"

definition requireAdmin :: "request \<Rightarrow> mw_outcome" where
  "requireAdmin req =
     (case user req of
        None \<Rightarrow> Respond (plain_error 401 ''Authentication required'')
      | Some u \<Rightarrow>
          if role u \<noteq> Some ''admin'' \<and> role u \<noteq> Some ''super_admin'' then
            Respond (plain_error 403 ''Admin privileges required'')
          else Next req)"

subsection \<open>The other controllers: the answer\<close>

text \<open>
  Every other handler wrapped in \<open>asyncHandler\<close> is embedded as far as its answer goes. Its
  body is one \<open>try\<close> whose \<open>catch\<close> answers with \<open>errorResponse(res, 500, msg, error.message)\<close>.
  What the awaited calls of the body did is an input: \<open>Inl error\<close> when a call, or the
  computation on its result, threw \<open>error\<close>, and otherwise what the branches of the handler
  depend on: whether the document exists, and the object the handler built as \<open>data\<close>.
  The first argument is the clock reading the response helper takes.
\<close>

record js_error =
  e_code :: "json option"
  e_name :: "string option"
  e_message :: "string option"
  e_statusCode :: "nat option"
  e_stack :: "string option"

type_synonym 'a awaited = "js_error + 'a"

definition caught :: "string \<Rightarrow> string \<Rightarrow> js_error \<Rightarrow> response" where
  "caught ts msg error = errorResponse ts (Some 500) (Some msg) (map_option JStr (e_message error))"

text \<open>\<open>announcementController\<close>\<close>

definition getAnnouncements :: "string \<Rightarrow> json awaited \<Rightarrow> response" where
  "getAnnouncements ts run =
     (case run of
        Inl error \<Rightarrow> caught ts ''Error retrieving announcements'' error
      | Inr payload \<Rightarrow> successResponse ts (Some 200) (Some ''Announcements retrieved successfully'') (Some payload))"

definition getAnnouncementById :: "string \<Rightarrow> json option awaited \<Rightarrow> response" where
  "getAnnouncementById ts got =
     (case got of
        Inl error \<Rightarrow> caught ts ''Error retrieving announcement'' error
      | Inr None \<Rightarrow> errorResponse ts (Some 404) (Some ''Announcement not found'') None
      | Inr (Some payload) \<Rightarrow> successResponse ts (Some 200) (Some ''Announcement retrieved successfully'') (Some payload))"

definition createAnnouncement :: "string \<Rightarrow> request \<Rightarrow> json awaited \<Rightarrow> response" where
  "createAnnouncement ts req added =
     (if \<not> truthy (body req ''title'') \<or> \<not> truthy (body req ''content'') \<or> \<not> truthy (body req ''category'') then
        errorResponse ts (Some 400) (Some ''Title, content, and category are required'') None
      else
        (case user req of
           None \<Rightarrow> errorResponse ts (Some 500) (Some ''Error creating announcement'') (Some (JStr uid_of_undefined))
         | Some u \<Rightarrow>
             (case added of
                Inl error \<Rightarrow> caught ts ''Error creating announcement'' error
              | Inr payload \<Rightarrow> successResponse ts (Some 201) (Some ''Announcement created successfully'') (Some payload))))"

definition updateAnnouncement :: "string \<Rightarrow> bool awaited \<Rightarrow> unit awaited \<Rightarrow> response" where
  "updateAnnouncement ts found wrote =
     (case found of
        Inl error \<Rightarrow> caught ts ''Error updating announcement'' error
      | Inr False \<Rightarrow> errorResponse ts (Some 404) (Some ''Announcement not found'') None
      | Inr True \<Rightarrow>
          (case wrote of
             Inl error \<Rightarrow> caught ts ''Error updating announcement'' error
           | Inr _ \<Rightarrow> successResponse ts (Some 200) (Some ''Announcement updated successfully'') None))"

definition deleteAnnouncement :: "string \<Rightarrow> bool awaited \<Rightarrow> unit awaited \<Rightarrow> response" where
  "deleteAnnouncement ts found wrote =
     (case found of
        Inl error \<Rightarrow> caught ts ''Error deleting announcement'' error
      | Inr False \<Rightarrow> errorResponse ts (Some 404) (Some ''Announcement not found'') None
      | Inr True \<Rightarrow>
          (case wrote of
             Inl error \<Rightarrow> caught ts ''Error deleting announcement'' error
           | Inr _ \<Rightarrow> successResponse ts (Some 200) (Some ''Announcement deleted successfully'') None))"

text \<open>\<open>baseController\<close>\<close>

definition getApiInfo :: "string \<Rightarrow> json awaited \<Rightarrow> response" where
  "getApiInfo ts run =
     (case run of
        Inl error \<Rightarrow> caught ts ''Error retrieving API information'' error
      | Inr payload \<Rightarrow> successResponse ts (Some 200) (Some ''API information'') (Some payload))"

definition getEnvInfo :: "string \<Rightarrow> json awaited \<Rightarrow> response" where
  "getEnvInfo ts run =
     (case run of
        Inl error \<Rightarrow> caught ts ''Error retrieving environment information'' error
      | Inr payload \<Rightarrow> successResponse ts (Some 200) (Some ''Environment information'') (Some payload))"

text \<open>\<open>galleryController\<close>\<close>

definition getGalleryImages :: "string \<Rightarrow> json awaited \<Rightarrow> response" where
  "getGalleryImages ts run =
     (case run of
        Inl error \<Rightarrow> caught ts ''Error retrieving gallery images'' error
      | Inr payload \<Rightarrow> successResponse ts (Some 200) (Some ''Gallery images retrieved successfully'') (Some payload))"

definition getGalleryImageById :: "string \<Rightarrow> json option awaited \<Rightarrow> response" where
  "getGalleryImageById ts got =
     (case got of
        Inl error \<Rightarrow> caught ts ''Error retrieving gallery image'' error
      | Inr None \<Rightarrow> errorResponse ts (Some 404) (Some ''Gallery image not found'') None
      | Inr (Some payload) \<Rightarrow> successResponse ts (Some 200) (Some ''Gallery image retrieved successfully'') (Some payload))"

definition createGalleryImage :: "string \<Rightarrow> request \<Rightarrow> json awaited \<Rightarrow> response" where
  "createGalleryImage ts req added =
     (if \<not> truthy (body req ''title'') \<or> \<not> truthy (body req ''imageUrl'') \<or> \<not> truthy (body req ''category'') then
        errorResponse ts (Some 400) (Some ''Required fields missing: title, imageUrl, and category are required'') None
      else
        (case user req of
           None \<Rightarrow> errorResponse ts (Some 500) (Some ''Error creating gallery image'') (Some (JStr uid_of_undefined))
         | Some u \<Rightarrow>
             (case added of
                Inl error \<Rightarrow> caught ts ''Error creating gallery image'' error
              | Inr payload \<Rightarrow> successResponse ts (Some 201) (Some ''Gallery image created successfully'') (Some payload))))"

definition updateGalleryImage :: "string \<Rightarrow> bool awaited \<Rightarrow> unit awaited \<Rightarrow> response" where
  "updateGalleryImage ts found wrote =
     (case found of
        Inl error \<Rightarrow> caught ts ''Error updating gallery image'' error
      | Inr False \<Rightarrow> errorResponse ts (Some 404) (Some ''Gallery image not found'') None
      | Inr True \<Rightarrow>
          (case wrote of
             Inl error \<Rightarrow> caught ts ''Error updating gallery image'' error
           | Inr _ \<Rightarrow> successResponse ts (Some 200) (Some ''Gallery image updated successfully'') None))"

definition deleteGalleryImage :: "string \<Rightarrow> bool awaited \<Rightarrow> unit awaited \<Rightarrow> response" where
  "deleteGalleryImage ts found wrote =
     (case found of
        Inl error \<Rightarrow> caught ts ''Error deleting gallery image'' error
      | Inr False \<Rightarrow> errorResponse ts (Some 404) (Some ''Gallery image not found'') None
      | Inr True \<Rightarrow>
          (case wrote of
             Inl error \<Rightarrow> caught ts ''Error deleting gallery image'' error
           | Inr _ \<Rightarrow> successResponse ts (Some 200) (Some ''Gallery image deleted successfully'') None))"

text \<open>\<open>documentController\<close>\<close>

definition getDocuments :: "string \<Rightarrow> json awaited \<Rightarrow> response" where
  "getDocuments ts run =
     (case run of
        Inl error \<Rightarrow> caught ts ''Error retrieving documents'' error
      | Inr payload \<Rightarrow> successResponse ts (Some 200) (Some ''Documents retrieved successfully'') (Some payload))"

definition getDocumentById :: "string \<Rightarrow> json option awaited \<Rightarrow> response" where
  "getDocumentById ts got =
     (case got of
        Inl error \<Rightarrow> caught ts ''Error retrieving document'' error
      | Inr None \<Rightarrow> errorResponse ts (Some 404) (Some ''Document not found'') None
      | Inr (Some payload) \<Rightarrow> successResponse ts (Some 200) (Some ''Document retrieved successfully'') (Some payload))"

definition createDocument :: "string \<Rightarrow> request \<Rightarrow> json awaited \<Rightarrow> response" where
  "createDocument ts req added =
     (if \<not> truthy (body req ''title'') \<or> \<not> truthy (body req ''category'') \<or> \<not> truthy (body req ''fileUrl'') \<or> \<not> truthy (body req ''fileName'') \<or> \<not> truthy (body req ''fileType'') then
        errorResponse ts (Some 400) (Some ''Required fields missing: title, category, fileUrl, fileName, and fileType are required'') None
      else
        (case user req of
           None \<Rightarrow> errorResponse ts (Some 500) (Some ''Error creating document'') (Some (JStr uid_of_undefined))
         | Some u \<Rightarrow>
             (case added of
                Inl error \<Rightarrow> caught ts ''Error creating document'' error
              | Inr payload \<Rightarrow> successResponse ts (Some 201) (Some ''Document created successfully'') (Some payload))))"

definition updateDocument :: "string \<Rightarrow> bool awaited \<Rightarrow> unit awaited \<Rightarrow> response" where
  "updateDocument ts found wrote =
     (case found of
        Inl error \<Rightarrow> caught ts ''Error updating document'' error
      | Inr False \<Rightarrow> errorResponse ts (Some 404) (Some ''Document not found'') None
      | Inr True \<Rightarrow>
          (case wrote of
             Inl error \<Rightarrow> caught ts ''Error updating document'' error
           | Inr _ \<Rightarrow> successResponse ts (Some 200) (Some ''Document updated successfully'') None))"

definition deleteDocument :: "string \<Rightarrow> bool awaited \<Rightarrow> unit awaited \<Rightarrow> response" where
  "deleteDocument ts found wrote =
     (case found of
        Inl error \<Rightarrow> caught ts ''Error deleting document'' error
      | Inr False \<Rightarrow> errorResponse ts (Some 404) (Some ''Document not found'') None
      | Inr True \<Rightarrow>
          (case wrote of
             Inl error \<Rightarrow> caught ts ''Error deleting document'' error
           | Inr _ \<Rightarrow> successResponse ts (Some 200) (Some ''Document deleted successfully'') None))"

text \<open>\<open>residentController\<close>\<close>

definition getAllResidents :: "string \<Rightarrow> json awaited \<Rightarrow> response" where
  "getAllResidents ts run =
     (case run of
        Inl error \<Rightarrow> caught ts ''Error retrieving residents'' error
      | Inr payload \<Rightarrow> successResponse ts (Some 200) (Some ''Residents retrieved successfully'') (Some payload))"

definition getResidentById :: "string \<Rightarrow> request \<Rightarrow> json option awaited \<Rightarrow> response" where
  "getResidentById ts req got =
     (case user req of
        None \<Rightarrow> errorResponse ts (Some 500) (Some ''Error retrieving resident'') (Some (JStr role_of_undefined))
      | Some u \<Rightarrow>
          if role u \<noteq> Some ''admin'' \<and> uid u \<noteq> params_id req then
            errorResponse ts (Some 403) (Some ''Not authorized to access this resident profile'') None
          else
            (case got of
               Inl error \<Rightarrow> caught ts ''Error retrieving resident'' error
             | Inr None \<Rightarrow> errorResponse ts (Some 404) (Some ''Resident not found'') None
             | Inr (Some payload) \<Rightarrow> successResponse ts (Some 200) (Some ''Resident retrieved successfully'') (Some payload)))"

definition createResident :: "string \<Rightarrow> request \<Rightarrow> bool awaited \<Rightarrow> json awaited \<Rightarrow> response" where
  "createResident ts req taken added =
     (if \<not> truthy (body req ''email'') \<or> \<not> truthy (body req ''name'') \<or> \<not> truthy (body req ''flatNumber'') then
        errorResponse ts (Some 400) (Some ''Email, name, and flat number are required'') None
      else
        (case taken of
           Inl error \<Rightarrow> caught ts ''Error creating resident'' error
         | Inr True \<Rightarrow> errorResponse ts (Some 400) (Some ''Resident with this email already exists'') None
         | Inr False \<Rightarrow>
             (case user req of
                None \<Rightarrow> errorResponse ts (Some 500) (Some ''Error creating resident'') (Some (JStr uid_of_undefined))
              | Some u \<Rightarrow>
                  (case added of
                     Inl error \<Rightarrow> caught ts ''Error creating resident'' error
                   | Inr payload \<Rightarrow> successResponse ts (Some 201) (Some ''Resident created successfully'') (Some payload)))))"

definition deleteResident :: "string \<Rightarrow> bool awaited \<Rightarrow> unit awaited \<Rightarrow> response" where
  "deleteResident ts found wrote =
     (case found of
        Inl error \<Rightarrow> caught ts ''Error deleting resident'' error
      | Inr False \<Rightarrow> errorResponse ts (Some 404) (Some ''Resident not found'') None
      | Inr True \<Rightarrow>
          (case wrote of
             Inl error \<Rightarrow> caught ts ''Error deleting resident'' error
           | Inr _ \<Rightarrow> successResponse ts (Some 200) (Some ''Resident deleted successfully'') None))"

text \<open>\<open>eventController\<close>\<close>

definition getEvents :: "string \<Rightarrow> json awaited \<Rightarrow> response" where
  "getEvents ts run =
     (case run of
        Inl error \<Rightarrow> caught ts ''Error retrieving events'' error
      | Inr payload \<Rightarrow> successResponse ts (Some 200) (Some ''Events retrieved successfully'') (Some payload))"

definition getEventById :: "string \<Rightarrow> json option awaited \<Rightarrow> response" where
  "getEventById ts got =
     (case got of
        Inl error \<Rightarrow> caught ts ''Error retrieving event'' error
      | Inr None \<Rightarrow> errorResponse ts (Some 404) (Some ''Event not found'') None
      | Inr (Some payload) \<Rightarrow> successResponse ts (Some 200) (Some ''Event retrieved successfully'') (Some payload))"

definition createEvent :: "string \<Rightarrow> request \<Rightarrow> unit awaited \<Rightarrow> json awaited \<Rightarrow> response" where
  "createEvent ts req dated added =
     (if \<not> truthy (body req ''title'') \<or> \<not> truthy (body req ''description'') \<or> \<not> truthy (body req ''date'') \<or> \<not> truthy (body req ''location'') then
        errorResponse ts (Some 400) (Some ''Title, description, date, and location are required'') None
      else
        (case dated of
           Inl error \<Rightarrow> caught ts ''Error creating event'' error
         | Inr _ \<Rightarrow>
             (case user req of
                None \<Rightarrow> errorResponse ts (Some 500) (Some ''Error creating event'') (Some (JStr uid_of_undefined))
              | Some u \<Rightarrow>
                  (case added of
                     Inl error \<Rightarrow> caught ts ''Error creating event'' error
                   | Inr payload \<Rightarrow> successResponse ts (Some 201) (Some ''Event created successfully'') (Some payload)))))"

definition updateEvent :: "string \<Rightarrow> bool awaited \<Rightarrow> unit awaited \<Rightarrow> response" where
  "updateEvent ts found wrote =
     (case found of
        Inl error \<Rightarrow> caught ts ''Error updating event'' error
      | Inr False \<Rightarrow> errorResponse ts (Some 404) (Some ''Event not found'') None
      | Inr True \<Rightarrow>
          (case wrote of
             Inl error \<Rightarrow> caught ts ''Error updating event'' error
           | Inr _ \<Rightarrow> successResponse ts (Some 200) (Some ''Event updated successfully'') None))"

definition deleteEvent :: "string \<Rightarrow> bool awaited \<Rightarrow> unit awaited \<Rightarrow> response" where
  "deleteEvent ts found wrote =
     (case found of
        Inl error \<Rightarrow> caught ts ''Error deleting event'' error
      | Inr False \<Rightarrow> errorResponse ts (Some 404) (Some ''Event not found'') None
      | Inr True \<Rightarrow>
          (case wrote of
             Inl error \<Rightarrow> caught ts ''Error deleting event'' error
           | Inr _ \<Rightarrow> successResponse ts (Some 200) (Some ''Event deleted successfully'') None))"

text \<open>\<open>routes/testRoutes, GET /api/test/firebase\<close>\<close>

definition testFirebase :: "string \<Rightarrow> string \<Rightarrow> unit awaited \<Rightarrow> response" where
  "testFirebase ts stamp added =
     (case added of
        Inl error \<Rightarrow> caught ts ''Firebase connection failed'' error
      | Inr _ \<Rightarrow> successResponse ts (Some 200) (Some ''Firebase connection successful'') (Some (JObj [(''timestamp'', JStr stamp)])))"

text \<open>\<open>authController\<close>\<close>

definition registerUser :: "string \<Rightarrow> request \<Rightarrow> json awaited \<Rightarrow> response" where
  "registerUser ts req run =
     (if \<not> truthy (body req ''email'') \<or> \<not> truthy (body req ''password'') then
        errorResponse ts (Some 400) (Some ''Email and password are required'') None
      else
        (case run of
           Inl error \<Rightarrow>
             if e_code error = Some (JStr ''auth/email-already-exists'') then
               errorResponse ts (Some 400) (Some ''Email already in use'') None
             else caught ts ''Error registering user'' error
         | Inr payload \<Rightarrow> successResponse ts (Some 201) (Some ''User registered successfully'') (Some payload)))"

definition loginUser :: "string \<Rightarrow> request \<Rightarrow> bool awaited \<Rightarrow> json awaited \<Rightarrow> response" where
  "loginUser ts req found run =
     (if \<not> truthy (body req ''email'') \<or> \<not> truthy (body req ''password'') then
        errorResponse ts (Some 400) (Some ''Email and password are required'') None
      else
        (case found of
           Inl error \<Rightarrow> caught ts ''Error during login'' error
         | Inr False \<Rightarrow> errorResponse ts (Some 404) (Some ''User not found'') None
         | Inr True \<Rightarrow>
             (case run of
                Inl error \<Rightarrow> caught ts ''Error during login'' error
              | Inr payload \<Rightarrow> successResponse ts (Some 200) (Some ''Login successful'') (Some payload))))"

definition forgotPassword :: "env \<Rightarrow> string \<Rightarrow> request \<Rightarrow> string awaited \<Rightarrow> response" where
  "forgotPassword e ts req run =
     (if \<not> truthy (body req ''email'') then
        errorResponse ts (Some 400) (Some ''Email is required'') None
      else
        (case run of
           Inl error \<Rightarrow>
             successResponse ts (Some 200) (Some ''Password reset email sent'')
               (Some (JObj ((''message'', JStr ''If an account exists with this email, a password reset link will be sent'')
                  # (if NODE_ENV e = Some ''development''
                     then (case e_message error of None \<Rightarrow> [] | Some m \<Rightarrow> [(''error'', JStr m)])
                     else []))))
         | Inr resetLink \<Rightarrow>
             successResponse ts (Some 200) (Some ''Password reset email sent'')
               (Some (JObj ((''message'', JStr ''If an account exists with this email, a password reset link will be sent'')
                  # (if NODE_ENV e = Some ''development'' then [(''resetLink'', JStr resetLink)] else []))))))"

definition getCurrentUser :: "string \<Rightarrow> request \<Rightarrow> json option awaited \<Rightarrow> response" where
  "getCurrentUser ts req got =
     (case user req of
        None \<Rightarrow> errorResponse ts (Some 500) (Some ''Error fetching user data'') (Some (JStr uid_not_destructured))
      | Some u \<Rightarrow>
          (case got of
             Inl error \<Rightarrow> caught ts ''Error fetching user data'' error
           | Inr None \<Rightarrow> errorResponse ts (Some 404) (Some ''User not found'') None
           | Inr (Some payload) \<Rightarrow> successResponse ts (Some 200) (Some ''User profile retrieved successfully'') (Some payload)))"

definition updateUserProfile :: "string \<Rightarrow> request \<Rightarrow> unit awaited \<Rightarrow> response" where
  "updateUserProfile ts req wrote =
     (case user req of
        None \<Rightarrow> errorResponse ts (Some 500) (Some ''Error updating profile'') (Some (JStr uid_not_destructured))
      | Some u \<Rightarrow>
          (case wrote of
             Inl error \<Rightarrow> caught ts ''Error updating profile'' error
           | Inr _ \<Rightarrow> successResponse ts (Some 200) (Some ''Profile updated successfully'') None))"

definition changePassword :: "string \<Rightarrow> request \<Rightarrow> unit awaited \<Rightarrow> response" where
  "changePassword ts req wrote =
     (case user req of
        None \<Rightarrow> errorResponse ts (Some 500) (Some ''Error changing password'') (Some (JStr uid_not_destructured))
      | Some u \<Rightarrow>
          if \<not> truthy (body req ''newPassword'') then
            errorResponse ts (Some 400) (Some ''New password is required'') None
          else
            (case wrote of
               Inl error \<Rightarrow> caught ts ''Error changing password'' error
             | Inr _ \<Rightarrow> successResponse ts (Some 200) (Some ''Password changed successfully'') None))"

definition googleAuth :: "string \<Rightarrow> request \<Rightarrow> json awaited \<Rightarrow> response" where
  "googleAuth ts req run =
     (if \<not> truthy (body req ''uid'') \<or> \<not> truthy (body req ''email'') then
        errorResponse ts (Some 400) (Some ''User ID and email are required'') None
      else
        (case run of
           Inl error \<Rightarrow> caught ts ''Error during Google authentication'' error
         | Inr payload \<Rightarrow> successResponse ts (Some 200) (Some ''Google authentication successful'') (Some payload)))"

subsection \<open>\<open>asyncHandler\<close>, \<open>errorHandler\<close>, \<open>GET /health\<close> and the serverless handler\<close>

text \<open>
  \<open>asyncHandler\<close> passes the handler's answer through and answers itself when the handler's
  promise rejects, with an \<open>ApiError\<close> or with anything else.
\<close>

datatype rejection = ApiError nat string | OtherError js_error

definition asyncHandler :: "string \<Rightarrow> rejection + response \<Rightarrow> response" where
  "asyncHandler ts outcome =
     (case outcome of
        Inr r \<Rightarrow> r
      | Inl (ApiError statusCode message) \<Rightarrow> errorResponse_eh ts (Some statusCode) (Some message) None
      | Inl (OtherError error) \<Rightarrow>
          errorResponse_eh ts (Some 500)
            (Some (case e_message error of
                     None \<Rightarrow> ''Server Error''
                   | Some m \<Rightarrow> if m \<noteq> [] then m else ''Server Error''))
            None)"

text \<open>
  \<open>errorHandler\<close> of \<open>middleware/error\<close>. A truthy \<open>err.code\<close> that is not a string has no
  \<open>startsWith\<close>: the handler throws and sends nothing (\<open>None\<close>). A template literal shows an
  undefined message as \<open>undefined\<close>.
\<close>

definition shown :: "string option \<Rightarrow> string" where
  "shown m = (case m of None \<Rightarrow> ''undefined'' | Some s \<Rightarrow> s)"

definition errorHandler_rest :: "env \<Rightarrow> string \<Rightarrow> js_error \<Rightarrow> response" where
  "errorHandler_rest e ts err =
     (if e_name err = Some ''ValidationError'' then
        errorResponse ts (Some 400) (Some ''Validation Error'') (map_option JStr (e_message err))
      else if e_code err = Some (JNum 11000) then
        errorResponse ts (Some 400) (Some ''Duplicate Field Value'') (map_option JStr (e_message err))
      else
        errorResponse ts
          (Some (case e_statusCode err of None \<Rightarrow> 500 | Some c \<Rightarrow> if c \<noteq> 0 then c else 500))
          (Some (case e_message err of
                   None \<Rightarrow> ''Server Error''
                 | Some m \<Rightarrow> if m \<noteq> [] then m else ''Server Error''))
          (if NODE_ENV e = Some ''development'' then map_option JStr (e_stack err) else None))"

definition errorHandler :: "env \<Rightarrow> string \<Rightarrow> js_error \<Rightarrow> response option" where
  "errorHandler e ts err =
     (case e_code err of
        None \<Rightarrow> Some (errorHandler_rest e ts err)
      | Some (JStr c) \<Rightarrow>
          if c \<noteq> [] \<and> startsWith c ''auth/'' then
            Some (errorResponse ts (Some 401) (Some (''Authentication error: '' @ shown (e_message err)))
                    (Some (JStr c)))
          else Some (errorHandler_rest e ts err)
      | Some other \<Rightarrow>
          if truthy (Some other) then None else Some (errorHandler_rest e ts err))"

text \<open>\<open>app.get('/health', ...)\<close> of \<open>index.ts\<close>; \<open>JSON.stringify\<close> drops an undefined \<open>env\<close>.\<close>

definition health :: "string \<Rightarrow> env \<Rightarrow> response" where
  "health ts e =
     \<lparr> status = 200,
       json_body =
         [ (''status'', JStr ''ok''), (''timestamp'', JStr ts) ]
         @ (case NODE_ENV e of None \<Rightarrow> [] | Some m \<Rightarrow> [(''env'', JStr m)]) \<rparr>"

text \<open>
  The serverless \<open>handler\<close> of \<open>api/index.js\<close>, from the request method and the path name of
  the parsed URL; \<open>getDocs\<close> gives the documents of a collection, with their ids, or throws.
  The answer to \<open>OPTIONS\<close> has no body. The headers the handler sets are not part of the model.
\<close>

definition handler_failed :: "js_error \<Rightarrow> response" where
  "handler_failed error =
     \<lparr> status = 500,
       json_body =
         (''error'', JStr ''Internal server error'')
         # (case e_message error of None \<Rightarrow> [] | Some m \<Rightarrow> [(''details'', JStr m)]) \<rparr>"

definition handler_collection :: "string \<Rightarrow> js_error + json list \<Rightarrow> response" where
  "handler_collection key docs =
     (case docs of
        Inl error \<Rightarrow> handler_failed error
      | Inr ds \<Rightarrow> \<lparr> status = 200, json_body = [(key, JArr ds)] \<rparr>)"

definition handler :: "string \<Rightarrow> string \<Rightarrow> (string \<Rightarrow> js_error + json list) \<Rightarrow> response" where
  "handler method pathname getDocs =
     (if method = ''OPTIONS'' then \<lparr> status = 200, json_body = [] \<rparr>
      else
        (let path = drop 4 pathname in
         if method = ''GET'' \<and> path = ''/health'' then
           \<lparr> status = 200, json_body = [(''status'', JStr ''OK''), (''message'', JStr ''API is healthy'')] \<rparr>
         else if method = ''GET'' \<and> path = ''/events'' then handler_collection ''events'' (getDocs ''events'')
         else if method = ''GET'' \<and> path = ''/gallery'' then handler_collection ''images'' (getDocs ''gallery'')
         else if method = ''GET'' \<and> path = ''/documents'' then handler_collection ''documents'' (getDocs ''documents'')
         else \<lparr> status = 404, json_body = [(''error'', JStr ''Not found'')] \<rparr>))"

text \<open>The second listing under \<open>api/index.js\<close>: the same handler with the health route only.\<close>

definition handler_basic :: "string \<Rightarrow> string \<Rightarrow> response" where
  "handler_basic method pathname =
     (if method = ''OPTIONS'' then \<lparr> status = 200, json_body = [] \<rparr>
      else
        (let path = drop 4 pathname in
         if method = ''GET'' \<and> path = ''/health'' then
           \<lparr> status = 200, json_body = [(''status'', JStr ''OK''), (''message'', JStr ''API is healthy'')] \<rparr>
         else \<lparr> status = 404, json_body = [(''error'', JStr ''Not found'')] \<rparr>))"

subsection \<open>Client session bridge (\<open>AuthProvider\<close>)\<close>

record fb_user =
  fb_uid :: string
  fb_email :: "string option"
  fb_displayName :: "string option"
  fb_photoURL :: "string option"
  fb_phoneNumber :: "string option"

text \<open>The context's \<open>User\<close> object; object spread is map override.\<close>

type_synonym client_user = "string \<rightharpoonup> json"

record auth_state =
  currentUser :: "client_user option"
  firebaseUser :: "fb_user option"
  loading :: bool
  tokenLoading :: bool
  authToken :: "string option"

text \<open>The context exposes \<open>loading: loading || tokenLoading\<close>.\<close>

definition exposed_loading :: "auth_state \<Rightarrow> bool" where
  "exposed_loading s = (loading s \<or> tokenLoading s)"

definition exposed_role :: "auth_state \<Rightarrow> json option" where
  "exposed_role s = (case currentUser s of None \<Rightarrow> None | Some cu \<Rightarrow> cu ''role'')"

text \<open>\<open>v || ''\<close> and \<open>v || undefined\<close> on a nullable string.\<close>

definition or_empty :: "string option \<Rightarrow> string" where
  "or_empty v = (case v of None \<Rightarrow> [] | Some s \<Rightarrow> s)"

definition or_undefined :: "string option \<Rightarrow> json option" where
  "or_undefined v = (case v of None \<Rightarrow> None | Some s \<Rightarrow> if s \<noteq> [] then Some (JStr s) else None)"

text \<open>The user set "from Firebase user initially", before \<open>/auth/me\<close> is called.\<close>

definition initial_user :: "fb_user \<Rightarrow> client_user" where
  "initial_user fu =
     (\<lambda>k. if k = ''id'' then Some (JStr (fb_uid fu))
          else if k = ''email'' then Some (JStr (or_empty (fb_email fu)))
          else if k = ''name'' then Some (JStr (or_empty (fb_displayName fu)))
          else if k = ''photoURL'' then or_undefined (fb_photoURL fu)
          else if k = ''phoneNumber'' then or_undefined (fb_phoneNumber fu)
          else if k = ''role'' then Some (JStr ''resident'')
          else None)"

text \<open>\<open>{ ...prev!, role: userData.role || 'resident', ...userData }\<close>\<close>

definition merge_user :: "client_user option \<Rightarrow> (string \<rightharpoonup> json) \<Rightarrow> client_user" where
  "merge_user prev userData =
     ((case prev of None \<Rightarrow> Map.empty | Some p \<Rightarrow> p)
        (''role'' \<mapsto> (case userData ''role'' of
                         None \<Rightarrow> JStr ''resident''
                       | Some r \<Rightarrow> if truthy (Some r) then r else JStr ''resident''))) ++ userData"

text \<open>
  The outcomes of the awaited calls: \<open>user.getIdToken(true)\<close>, \<open>axios.get('/api/auth/me')\<close>
  (it throws, or answers without \<open>success\<close>, or answers with \<open>data.data\<close>), and
  \<open>signOut(auth)\<close> inside \<open>logout\<close>.
\<close>

datatype token_result = TokenOk string | TokenFails
datatype me_result = MeThrows | MeUnsuccessful | MeSuccess "string \<rightharpoonup> json"

text \<open>The listener's branch for a signed-out session.\<close>

definition signed_out :: "auth_state \<Rightarrow> auth_state" where
  "signed_out s = s\<lparr> firebaseUser := None, currentUser := None, authToken := None, loading := False \<rparr>"

text \<open>
  \<open>fetchBackendUserData\<close>. The result lists the states the provider holds while the
  function is suspended at a network call (first at \<open>getIdToken\<close>, then at \<open>axios.get\<close>),
  the state it leaves, and whether it threw (when \<open>logout\<close> rethrows).
\<close>

definition fetchBackendUserData ::
    "auth_state \<Rightarrow> fb_user \<Rightarrow> token_result \<Rightarrow> me_result \<Rightarrow> bool \<Rightarrow> auth_state list \<times> auth_state \<times> bool" where
  "fetchBackendUserData s fu tok me signOut_ok =
     (let s1 = s\<lparr> tokenLoading := True \<rparr>
      in case tok of
           TokenFails \<Rightarrow>
             if signOut_ok then ([s1], (signed_out s1)\<lparr> tokenLoading := False \<rparr>, False)
             else ([s1], s1\<lparr> tokenLoading := False \<rparr>, True)
         | TokenOk idToken \<Rightarrow>
             (let s2 = s1\<lparr> authToken := Some idToken, currentUser := Some (initial_user fu) \<rparr>;
                  s3 = (case me of
                          MeSuccess userData \<Rightarrow> s2\<lparr> currentUser := Some (merge_user (currentUser s2) userData) \<rparr>
                        | _ \<Rightarrow> s2)
              in ([s1, s2], s3\<lparr> tokenLoading := False \<rparr>, False)))"

text \<open>The \<open>onAuthStateChanged\<close> listener: the suspended states and the state it leaves.\<close>

definition onAuthStateChanged ::
    "auth_state \<Rightarrow> fb_user option \<Rightarrow> token_result \<Rightarrow> me_result \<Rightarrow> bool \<Rightarrow> auth_state list \<times> auth_state" where
  "onAuthStateChanged s fu tok me signOut_ok =
     (case fu of
        None \<Rightarrow> ([], signed_out s)
      | Some u \<Rightarrow>
          (case fetchBackendUserData (s\<lparr> firebaseUser := Some u \<rparr>) u tok me signOut_ok of
             (held, s', threw) \<Rightarrow> (held, if threw then s' else s'\<lparr> loading := False \<rparr>)))"

subsection \<open>Vocabulary of the properties\<close>

text \<open>The first database read of the request does not reject.\<close>

definition get_ok :: "db_fault \<Rightarrow> bool" where
  "get_ok fault = (case fault of GetFails _ \<Rightarrow> False | _ \<Rightarrow> True)"

text \<open>The request was authenticated as identity \<open>i\<close> and addresses document \<open>eid\<close>.\<close>

definition sent_by :: "request \<Rightarrow> string \<Rightarrow> string \<Rightarrow> bool" where
  "sent_by req i eid = (map_option uid (user req) = Some i \<and> params_id req = eid)"

definition attendee_count :: "events \<Rightarrow> string \<Rightarrow> nat" where
  "attendee_count evs eid = (case evs eid of None \<Rightarrow> 0 | Some e \<Rightarrow> length (attendees_or_empty e))"

text \<open>
  Attendee lists hold no identity twice. \<open>createEvent\<close> stores \<open>attendees: []\<close>, and the two
  RSVP handlers keep the property (lemmas \<open>rsvpToEvent_distinct\<close>, \<open>cancelRsvp_distinct\<close>),
  so the list is the attendee set of the specification.
\<close>

definition distinct_attendees :: "events \<Rightarrow> bool" where
  "distinct_attendees evs = (\<forall>eid e. evs eid = Some e \<longrightarrow> distinct (attendees_or_empty e))"

text \<open>A field of a stored \<open>users\<close> document; \<open>None\<close> when the document or the field is absent.\<close>

definition stored_field :: "users \<Rightarrow> string \<Rightarrow> string \<Rightarrow> json option" where
  "stored_field usrs rid f = (case usrs rid of None \<Rightarrow> None | Some d \<Rightarrow> d f)"

text \<open>The fields a requester may change through \<open>PUT /api/residents/:id\<close>.\<close>

definition writable_fields :: "req_user \<Rightarrow> string set" where
  "writable_fields u =
     (if role u = Some ''admin''
      then {''displayName'', ''phoneNumber'', ''flatNumber'', ''blockNumber'', ''updatedAt''}
      else {''displayName'', ''phoneNumber'', ''updatedAt''})"

text \<open>The header passes the middleware's first check.\<close>

definition well_formed_header :: "string option \<Rightarrow> bool" where
  "well_formed_header h = (case h of None \<Rightarrow> False | Some a \<Rightarrow> startsWith a ''Bearer '')"

text \<open>The bearer token a request presents, when its header is well formed.\<close>

definition presented_token :: "request \<Rightarrow> string option" where
  "presented_token req =
     (case authorization req of
        None \<Rightarrow> None
      | Some a \<Rightarrow> if startsWith a ''Bearer '' then bearer_token a else None)"

text \<open>The condition of the development escape hatch.\<close>

definition bypass :: "env \<Rightarrow> string \<Rightarrow> bool" where
  "bypass e token = (NODE_ENV e = Some ''development'' \<and> startsWith token ''simulated_token_'')"

text \<open>The role of the identity context a middleware run attached, if it continued.\<close>

definition attached_role :: "mw_outcome \<Rightarrow> string option" where
  "attached_role out =
     (case out of
        Respond _ \<Rightarrow> None
      | Next r \<Rightarrow> (case user r of None \<Rightarrow> None | Some u \<Rightarrow> role u))"

definition continues :: "mw_outcome \<Rightarrow> bool" where
  "continues out = (case out of Next _ \<Rightarrow> True | Respond _ \<Rightarrow> False)"

definition responds_with :: "nat \<Rightarrow> mw_outcome \<Rightarrow> bool" where
  "responds_with code out = (case out of Next _ \<Rightarrow> False | Respond r \<Rightarrow> status r = code)"

text \<open>
  The role resolution the specification describes (section 4.2), following its words: the
  role field of the Application User Record looked up by identity id, the record being
  created with role \<open>resident\<close> when absent.
\<close>

definition spec_record_role :: "users \<Rightarrow> string \<Rightarrow> json option" where
  "spec_record_role usrs i =
     (case usrs i of None \<Rightarrow> Some (JStr ''resident'') | Some d \<Rightarrow> d ''role'')"

text \<open>A continued run attached the role the specification's resolution gives for its uid.\<close>

definition role_from_record :: "users \<Rightarrow> mw_outcome \<Rightarrow> bool" where
  "role_from_record usrs out =
     (case out of
        Respond _ \<Rightarrow> True
      | Next r \<Rightarrow>
          (case user r of
             None \<Rightarrow> False
           | Some u \<Rightarrow> map_option JStr (role u) = spec_record_role usrs (uid u)))"

text \<open>A route declared as \<open>router.METHOD(path, verifyAuth, verifyAdmin, handler)\<close>, up to the handler.\<close>

definition admin_route :: "env \<Rightarrow> verifier \<Rightarrow> request \<Rightarrow> mw_outcome" where
  "admin_route e verifyIdToken req =
     (case fst (verifyAuth e verifyIdToken req) of
        Respond r \<Rightarrow> Respond r
      | Next req' \<Rightarrow> verifyAdmin req')"

text \<open>
  The response envelope of the specification (section 6), following its words: a success
  carries \<open>success: true\<close>, a message string, a \<open>data\<close> field and an ISO-8601 timestamp; an
  error carries \<open>success: false\<close>, a message string and an ISO-8601 timestamp. The timestamp
  has the shape \<open>toISOString\<close> gives: \<open>YYYY-MM-DDTHH:mm:ss.sssZ\<close>.
\<close>

definition field :: "response \<Rightarrow> string \<Rightarrow> json option" where
  "field r k = map_of (json_body r) k"

definition is_string :: "json option \<Rightarrow> bool" where
  "is_string j = (case j of Some (JStr _) \<Rightarrow> True | _ \<Rightarrow> False)"

definition is_digit :: "char \<Rightarrow> bool" where
  "is_digit c = (c \<in> set ''0123456789'')"

text \<open>In the mask \<open>d\<close> stands for a digit and every other character for itself.\<close>

definition iso8601 :: "string \<Rightarrow> bool" where
  "iso8601 s =
     list_all2 (\<lambda>m c. if m = CHR ''d'' then is_digit c else c = m) ''dddd-dd-ddTdd:dd:dd.dddZ'' s"

definition is_iso_timestamp :: "json option \<Rightarrow> bool" where
  "is_iso_timestamp j = (case j of Some (JStr s) \<Rightarrow> iso8601 s | _ \<Rightarrow> False)"

definition success_envelope :: "response \<Rightarrow> bool" where
  "success_envelope r =
     (field r ''success'' = Some (JBool True) \<and> is_string (field r ''message'')
      \<and> field r ''data'' \<noteq> None \<and> is_iso_timestamp (field r ''timestamp''))"

definition error_envelope :: "response \<Rightarrow> bool" where
  "error_envelope r =
     (field r ''success'' = Some (JBool False) \<and> is_string (field r ''message'')
      \<and> is_iso_timestamp (field r ''timestamp''))"

text \<open>A controller's answer: the success envelope below status 400, the error envelope from 400 on.\<close>

definition enveloped :: "response \<Rightarrow> bool" where
  "enveloped r = (if status r < 400 then success_envelope r else error_envelope r)"

text \<open>What the authentication middlewares send: \<open>success: false\<close> and a message, and no timestamp.\<close>

definition bare_error :: "response \<Rightarrow> bool" where
  "bare_error r =
     (field r ''success'' = Some (JBool False) \<and> is_string (field r ''message'')
      \<and> field r ''timestamp'' = None)"

definition mw_bare :: "mw_outcome \<Rightarrow> bool" where
  "mw_bare out = (case out of Next _ \<Rightarrow> True | Respond r \<Rightarrow> bare_error r)"

text \<open>An answer outside the envelope altogether: it has no \<open>success\<close> field.\<close>

definition outside_envelope :: "response \<Rightarrow> bool" where
  "outside_envelope r = (field r ''success'' = None)"

text \<open>While the context reports loading, the exposed user carries no role.\<close>

definition role_hidden_while_loading :: "auth_state \<Rightarrow> bool" where
  "role_hidden_while_loading s = (if exposed_loading s then exposed_role s = None else True)"

subsection \<open>Sample data\<close>

definition ex_clock :: clock where
  "ex_clock n = (if n = 0 then ''2025-01-01T18:00:00.000Z'' else ''2025-01-01T18:00:00.001Z'')"

definition ex_event :: event where
  "ex_event =
     \<lparr> title = ''BBQ'', description = ''Summer'', date = ''2025-01-01T18:00:00.000Z'', endDate = None,
       location = ''Park'', maxAttendees = Some 2, image = None, isPublic = True,
       attendees = Some [''alice'', ''bob''], createdBy = ''admin1'',
       createdAt = ''2024-12-01T00:00:00.000Z'', updatedAt = ''2024-12-01T00:00:00.000Z'' \<rparr>"

definition ex_events :: events where
  "ex_events = [''ev1'' \<mapsto> ex_event]"

definition ex_users :: users where
  "ex_users =
     [''alice'' \<mapsto> [''email'' \<mapsto> JStr ''alice@example.com'', ''displayName'' \<mapsto> JStr ''Alice'',
                     ''flatNumber'' \<mapsto> JStr ''12'', ''role'' \<mapsto> JStr ''resident''],
      ''bob'' \<mapsto> [''email'' \<mapsto> JStr ''bob@example.com'', ''role'' \<mapsto> JStr ''resident'']]"

definition ex_request :: "string \<Rightarrow> string \<Rightarrow> string \<Rightarrow> request" where
  "ex_request i r target =
     \<lparr> authorization = Some ''Bearer abc'',
       user = Some \<lparr> uid = i, email = None, role = Some r \<rparr>,
       params_id = target, body = Map.empty \<rparr>"

text \<open>Alice renames herself and tries to make herself admin.\<close>

definition ex_update_request :: request where
  "ex_update_request =
     (ex_request ''alice'' ''resident'' ''alice'')
       \<lparr> body := [''name'' \<mapsto> JStr ''Al'', ''role'' \<mapsto> JStr ''admin''] \<rparr>"

text \<open>
  A provider that verifies every token as Alice's with the custom claim \<open>role: 'admin'\<close>
  (as set by \<open>setCustomUserClaims\<close>), while her \<open>users\<close> record says \<open>resident\<close>; and a
  provider that rejects every token as expired.
\<close>

definition ex_verifier :: verifier where
  "ex_verifier token = Inr \<lparr> tok_uid = ''alice'', tok_email = Some ''alice@example.com'', tok_role = Some ''admin'' \<rparr>"

definition ex_rejecting_verifier :: verifier where
  "ex_rejecting_verifier token =
     Inl \<lparr> err_code = ''auth/id-token-expired'', err_message = ''Firebase ID token has expired.'' \<rparr>"

definition ex_production :: env where
  "ex_production = \<lparr> NODE_ENV = Some ''production'' \<rparr>"

definition ex_development :: env where
  "ex_development = \<lparr> NODE_ENV = Some ''development'' \<rparr>"

definition ex_unauthenticated :: "string \<Rightarrow> request" where
  "ex_unauthenticated header =
     \<lparr> authorization = Some header, user = None, params_id = ''ev1'', body = Map.empty \<rparr>"

text \<open>An error of the identity provider handed to \<open>errorHandler\<close>.\<close>

definition ex_thrown :: js_error where
  "ex_thrown =
     \<lparr> e_code = Some (JStr ''auth/id-token-expired''), e_name = Some ''FirebaseAuthError'',
       e_message = Some ''Firebase ID token has expired.'', e_statusCode = None, e_stack = None \<rparr>"

text \<open>The provider state at start-up and a Firebase user who signs in.\<close>

definition ex_initial_state :: auth_state where
  "ex_initial_state =
     \<lparr> currentUser = None, firebaseUser = None, loading = True, tokenLoading = False, authToken = None \<rparr>"

definition ex_fb_user :: fb_user where
  "ex_fb_user =
     \<lparr> fb_uid = ''alice'', fb_email = Some ''alice@example.com'', fb_displayName = Some ''Alice'',
       fb_photoURL = None, fb_phoneNumber = None \<rparr>"

section \<open>Theorems\<close>

subsection \<open>Strings\<close>

lemma split_nonempty: "split c s \<noteq> []"
  by (induction s) (auto split: list.splits)

lemma hd_split: "hd (split c s) = takeWhile (\<lambda>x. x \<noteq> c) s"
  by (induction s) (auto split: list.splits simp: split_nonempty)

lemma startsWith_append: "startsWith h p \<Longrightarrow> p @ drop (length p) h = h"
  unfolding startsWith_def by (metis append_take_drop_id)

lemma bearer_token_prefix:
  "bearer_token (''Bearer '' @ t) = Some (takeWhile (\<lambda>x. x \<noteq> CHR '' '') t)"
proof -
  obtain w ws where sp: "split CHR '' '' t = w # ws"
    using split_nonempty [of "CHR '' ''" t] by (cases "split CHR '' '' t") auto
  then have "w = takeWhile (\<lambda>x. x \<noteq> CHR '' '') t"
    using hd_split [of "CHR '' ''" t] by simp
  with sp show ?thesis by (simp add: bearer_token_def)
qed

text \<open>After the \<open>startsWith('Bearer ')\<close> check the token is never \<open>undefined\<close>.\<close>

lemma bearer_token_defined:
  assumes "startsWith h ''Bearer ''"
  shows "bearer_token h = Some (takeWhile (\<lambda>x. x \<noteq> CHR '' '') (drop (length ''Bearer '') h))"
proof -
  have "bearer_token (''Bearer '' @ drop (length ''Bearer '') h)
          = Some (takeWhile (\<lambda>x. x \<noteq> CHR '' '') (drop (length ''Bearer '') h))"
    by (rule bearer_token_prefix)
  then show ?thesis
    by (simp only: startsWith_append [OF assms])
qed

subsection \<open>RSVP\<close>

lemma rsvp_full:
  assumes "sent_by req i eid" and "evs eid = Some e"
    and "i \<notin> set (attendees_or_empty e)" and "get_ok fault"
    and "maxAttendees e = Some m" and "m \<noteq> 0" and "m \<le> int (length (attendees_or_empty e))"
  shows "rsvpToEvent clk fault evs req =
           (errorResponse (clk 0) (Some 400) (Some ''Event has reached maximum attendees'') None, evs)"
  using assms
  by (cases fault) (auto simp: rsvpToEvent_def Let_def sent_by_def get_ok_def reached_maximum_def)

lemma rsvp_accepted:
  assumes "sent_by req i eid" and "evs eid = Some e"
    and "i \<notin> set (attendees_or_empty e)"
    and "maxAttendees e = Some m" and "int (length (attendees_or_empty e)) < m"
  shows "rsvpToEvent clk NoFault evs req =
           (successResponse (clk 1) (Some 200) (Some ''RSVP successful'') None,
            evs(eid \<mapsto> e\<lparr>attendees := Some (attendees_or_empty e @ [i]), updatedAt := clk 0\<rparr>))"
  using assms
  by (auto simp: rsvpToEvent_def Let_def sent_by_def reached_maximum_def)

lemma cancel_accepted:
  assumes "sent_by req i eid" and "evs eid = Some e"
    and "i \<in> set (attendees_or_empty e)"
  shows "cancelRsvp clk NoFault evs req =
           (successResponse (clk 1) (Some 200) (Some ''RSVP canceled successfully'') None,
            evs(eid \<mapsto> e\<lparr>attendees := Some (filter (\<lambda>j. j \<noteq> i) (attendees_or_empty e)),
                          updatedAt := clk 0\<rparr>))"
  using assms
  by (auto simp: cancelRsvp_def Let_def sent_by_def)

lemma filter_absent: "a \<notin> set xs \<Longrightarrow> filter (\<lambda>j. j \<noteq> a) xs = xs"
  by (induction xs) auto

lemma length_filter_distinct:
  "distinct xs \<Longrightarrow> a \<in> set xs \<Longrightarrow> Suc (length (filter (\<lambda>j. j \<noteq> a) xs)) = length xs"
  by (induction xs) (auto simp: filter_absent)

text \<open>Both handlers keep attendee lists free of repetitions.\<close>

lemma rsvpToEvent_distinct:
  assumes "distinct_attendees evs"
  shows "distinct_attendees (snd (rsvpToEvent clk fault evs req))"
  using assms
  by (auto simp: rsvpToEvent_def Let_def distinct_attendees_def attendees_or_empty_def
           split: option.splits db_fault.splits if_splits)

lemma cancelRsvp_distinct:
  assumes "distinct_attendees evs"
  shows "distinct_attendees (snd (cancelRsvp clk fault evs req))"
  using assms
  by (auto simp: cancelRsvp_def Let_def distinct_attendees_def attendees_or_empty_def
           split: option.splits db_fault.splits if_splits)

text \<open>
  C5. An RSVP by an identity already in the event's attendee list is answered with
  HTTP 400 (\<open>success: false\<close>, "You have already RSVP'd to this event") and the events
  collection, hence the event document and its attendee list, is left as it was.
  The database read is assumed to succeed; a rejected read is answered with 500.
\<close>

theorem rsvp_twice_rejected:
  assumes "sent_by req i eid" and "evs eid = Some e"
    and "i \<in> set (attendees_or_empty e)" and "get_ok fault"
  shows "rsvpToEvent clk fault evs req =
           (errorResponse (clk 0) (Some 400) (Some ''You have already RSVP'd to this event'') None, evs)
         \<and> status (fst (rsvpToEvent clk fault evs req)) = 400
         \<and> attendee_count (snd (rsvpToEvent clk fault evs req)) eid = attendee_count evs eid"
  using assms
  by (cases fault) (auto simp: rsvpToEvent_def Let_def sent_by_def get_ok_def errorResponse_def)

theorem rsvp_twice_rejected_witness:
  "sent_by (ex_request ''alice'' ''resident'' ''ev1'') ''alice'' ''ev1''
   \<and> ex_events ''ev1'' = Some ex_event
   \<and> ''alice'' \<in> set (attendees_or_empty ex_event)
   \<and> get_ok NoFault
   \<and> status (fst (rsvpToEvent ex_clock NoFault ex_events (ex_request ''alice'' ''resident'' ''ev1''))) = 400
   \<and> snd (rsvpToEvent ex_clock NoFault ex_events (ex_request ''alice'' ''resident'' ''ev1'')) = ex_events"
proof -
  have h1: "sent_by (ex_request ''alice'' ''resident'' ''ev1'') ''alice'' ''ev1''"
    by (simp add: sent_by_def ex_request_def)
  have h2: "ex_events ''ev1'' = Some ex_event"
    by (simp add: ex_events_def)
  have h3: "''alice'' \<in> set (attendees_or_empty ex_event)"
    by (simp add: attendees_or_empty_def ex_event_def)
  have h4: "get_ok NoFault"
    by (simp add: get_ok_def)
  note r = rsvp_twice_rejected [where evs = ex_events and e = ex_event and clk = ex_clock, OF h1 h2 h3 h4]
  have st: "status (fst (rsvpToEvent ex_clock NoFault ex_events (ex_request ''alice'' ''resident'' ''ev1''))) = 400"
    using r by (rule_tac conjunct1 [OF conjunct2])
  have sn: "snd (rsvpToEvent ex_clock NoFault ex_events (ex_request ''alice'' ''resident'' ''ev1'')) = ex_events"
    using r [THEN conjunct1] by simp
  show ?thesis by (intro conjI h1 h2 h3 h4 st sn)
qed

text \<open>
  C4. Take an event with \<open>maxAttendees = N\<close>, \<open>N \<ge> 1\<close>, whose attendee list holds \<open>N\<close>
  distinct identities. An RSVP by an identity \<open>b\<close> outside the list is answered with HTTP 400
  ("Event has reached maximum attendees") and changes nothing. After the attendee \<open>a\<close>
  cancels (200, \<open>N - 1\<close> attendees), the RSVP of an identity \<open>c\<close> not among the remaining
  attendees succeeds (200, \<open>N\<close> attendees again), and the RSVP of a further identity \<open>d\<close>
  is answered with 400 again and changes nothing. All database calls succeed.
\<close>

theorem capacity_boundary:
  assumes ev: "evs eid = Some e"
    and cap: "maxAttendees e = Some (int N)" and N: "1 \<le> N"
    and full: "length (attendees_or_empty e) = N"
    and dist: "distinct (attendees_or_empty e)"
    and rb: "sent_by req_b b eid" and b: "b \<notin> set (attendees_or_empty e)"
    and ra: "sent_by req_a a eid" and a: "a \<in> set (attendees_or_empty e)"
    and rc: "sent_by req_c c eid" and c: "c \<notin> set (attendees_or_empty e) - {a}"
    and rd: "sent_by req_d d eid" and d: "d \<notin> set (attendees_or_empty e) - {a}" "d \<noteq> c"
  shows "(case rsvpToEvent clk_b NoFault evs req_b of (r1, evs1) \<Rightarrow>
          r1 = errorResponse (clk_b 0) (Some 400) (Some ''Event has reached maximum attendees'') None
          \<and> status r1 = 400 \<and> evs1 = evs \<and>
         (case cancelRsvp clk_a NoFault evs1 req_a of (r2, evs2) \<Rightarrow>
          status r2 = 200 \<and> attendee_count evs2 eid = N - 1 \<and>
         (case rsvpToEvent clk_c NoFault evs2 req_c of (r3, evs3) \<Rightarrow>
          status r3 = 200 \<and> attendee_count evs3 eid = N \<and>
         (case rsvpToEvent clk_d NoFault evs3 req_d of (r4, evs4) \<Rightarrow>
          r4 = errorResponse (clk_d 0) (Some 400) (Some ''Event has reached maximum attendees'') None
          \<and> status r4 = 400 \<and> evs4 = evs3))))"
proof -
  let ?atts = "attendees_or_empty e"
  let ?rest = "filter (\<lambda>j. j \<noteq> a) ?atts"
  have s1: "rsvpToEvent clk_b NoFault evs req_b =
              (errorResponse (clk_b 0) (Some 400) (Some ''Event has reached maximum attendees'') None, evs)"
    using rsvp_full [where evs = evs and e = e and fault = NoFault and m = "int N" and clk = clk_b, OF rb ev b]
      cap N full by (simp add: get_ok_def)
  define e2 where "e2 = e\<lparr>attendees := Some ?rest, updatedAt := clk_a 0\<rparr>"
  define evs2 where "evs2 = evs(eid \<mapsto> e2)"
  have s2: "cancelRsvp clk_a NoFault evs req_a =
              (successResponse (clk_a 1) (Some 200) (Some ''RSVP canceled successfully'') None, evs2)"
    using cancel_accepted [where evs = evs and e = e and clk = clk_a, OF ra ev a]
    by (simp add: evs2_def e2_def)
  have len_rest: "Suc (length ?rest) = N"
    using length_filter_distinct [OF dist a] full by simp
  have atts2: "attendees_or_empty e2 = ?rest" and cap2: "maxAttendees e2 = Some (int N)"
    by (simp_all add: e2_def attendees_or_empty_def cap)
  have ev2: "evs2 eid = Some e2" by (simp add: evs2_def)
  have c2: "c \<notin> set (attendees_or_empty e2)" using c by (auto simp: atts2)
  define e3 where "e3 = e2\<lparr>attendees := Some (?rest @ [c]), updatedAt := clk_c 0\<rparr>"
  define evs3 where "evs3 = evs2(eid \<mapsto> e3)"
  have s3: "rsvpToEvent clk_c NoFault evs2 req_c =
              (successResponse (clk_c 1) (Some 200) (Some ''RSVP successful'') None, evs3)"
    using rsvp_accepted [where evs = evs2 and e = e2 and clk = clk_c, OF rc ev2 c2 cap2] len_rest
    by (simp add: atts2 evs3_def e3_def)
  have atts3: "attendees_or_empty e3 = ?rest @ [c]" and cap3: "maxAttendees e3 = Some (int N)"
    by (simp_all add: e3_def attendees_or_empty_def cap2)
  have ev3: "evs3 eid = Some e3" by (simp add: evs3_def)
  have d3: "d \<notin> set (attendees_or_empty e3)" using d by (auto simp: atts3)
  have len3: "length (attendees_or_empty e3) = N" using len_rest by (simp add: atts3)
  have s4: "rsvpToEvent clk_d NoFault evs3 req_d =
              (errorResponse (clk_d 0) (Some 400) (Some ''Event has reached maximum attendees'') None, evs3)"
    using rsvp_full [where evs = evs3 and e = e3 and fault = NoFault and m = "int N" and clk = clk_d, OF rd ev3 d3]
      cap3 N len3 by (simp add: get_ok_def)
  have n2: "attendee_count evs2 eid = N - 1"
    using len_rest by (simp add: attendee_count_def ev2 atts2)
  have n3: "attendee_count evs3 eid = N"
    by (simp add: attendee_count_def ev3 len3)
  show ?thesis
    by (simp add: s1 s2 s3 s4 n2 n3 errorResponse_def successResponse_def)
qed

theorem capacity_boundary_witness:
  "ex_events ''ev1'' = Some ex_event \<and> maxAttendees ex_event = Some (int 2) \<and> (1::nat) \<le> 2
   \<and> length (attendees_or_empty ex_event) = 2 \<and> distinct (attendees_or_empty ex_event)
   \<and> sent_by (ex_request ''carol'' ''resident'' ''ev1'') ''carol'' ''ev1''
   \<and> ''carol'' \<notin> set (attendees_or_empty ex_event)
   \<and> sent_by (ex_request ''alice'' ''resident'' ''ev1'') ''alice'' ''ev1''
   \<and> ''alice'' \<in> set (attendees_or_empty ex_event)
   \<and> ''carol'' \<notin> set (attendees_or_empty ex_event) - {''alice''}
   \<and> sent_by (ex_request ''dave'' ''resident'' ''ev1'') ''dave'' ''ev1''
   \<and> ''dave'' \<notin> set (attendees_or_empty ex_event) - {''alice''} \<and> ''dave'' \<noteq> ''carol''
   \<and> (case rsvpToEvent ex_clock NoFault ex_events (ex_request ''carol'' ''resident'' ''ev1'') of (r1, evs1) \<Rightarrow>
        r1 = errorResponse (ex_clock 0) (Some 400) (Some ''Event has reached maximum attendees'') None
        \<and> status r1 = 400 \<and> evs1 = ex_events \<and>
       (case cancelRsvp ex_clock NoFault evs1 (ex_request ''alice'' ''resident'' ''ev1'') of (r2, evs2) \<Rightarrow>
        status r2 = 200 \<and> attendee_count evs2 ''ev1'' = 2 - 1 \<and>
       (case rsvpToEvent ex_clock NoFault evs2 (ex_request ''carol'' ''resident'' ''ev1'') of (r3, evs3) \<Rightarrow>
        status r3 = 200 \<and> attendee_count evs3 ''ev1'' = 2 \<and>
       (case rsvpToEvent ex_clock NoFault evs3 (ex_request ''dave'' ''resident'' ''ev1'') of (r4, evs4) \<Rightarrow>
        r4 = errorResponse (ex_clock 0) (Some 400) (Some ''Event has reached maximum attendees'') None
        \<and> status r4 = 400 \<and> evs4 = evs3))))"
proof -
  have ev: "ex_events ''ev1'' = Some ex_event" by (simp add: ex_events_def)
  have cap: "maxAttendees ex_event = Some (int 2)" by (simp add: ex_event_def)
  have N: "(1::nat) \<le> 2" by simp
  have atts: "attendees_or_empty ex_event = [''alice'', ''bob'']"
    by (simp add: attendees_or_empty_def ex_event_def)
  have full: "length (attendees_or_empty ex_event) = 2" and dist: "distinct (attendees_or_empty ex_event)"
    by (simp_all add: atts)
  have rb: "sent_by (ex_request ''carol'' ''resident'' ''ev1'') ''carol'' ''ev1''"
    and ra: "sent_by (ex_request ''alice'' ''resident'' ''ev1'') ''alice'' ''ev1''"
    and rd: "sent_by (ex_request ''dave'' ''resident'' ''ev1'') ''dave'' ''ev1''"
    by (simp_all add: sent_by_def ex_request_def)
  have b: "''carol'' \<notin> set (attendees_or_empty ex_event)"
    and a: "''alice'' \<in> set (attendees_or_empty ex_event)"
    and c: "''carol'' \<notin> set (attendees_or_empty ex_event) - {''alice''}"
    and d: "''dave'' \<notin> set (attendees_or_empty ex_event) - {''alice''}"
    and dc: "''dave'' \<noteq> ''carol''"
    by (simp_all add: atts)
  note run = capacity_boundary [where evs = ex_events and e = ex_event and N = 2
      and clk_b = ex_clock and clk_a = ex_clock and clk_c = ex_clock and clk_d = ex_clock,
      OF ev cap N full dist rb b ra a rb c rd d dc]
  show ?thesis
    by (intro conjI ev cap N full dist rb b ra a c rd d dc run)
qed

subsection \<open>Resident profile update\<close>

lemma set_if_truthy_other: "k' \<noteq> k \<Longrightarrow> set_if_truthy m k v k' = m k'"
  by (simp add: set_if_truthy_def split: option.splits)

lemma set_if_truthy_same:
  "set_if_truthy m k v k = (if truthy v then v else m k)"
  by (cases v) (simp_all add: set_if_truthy_def)

lemma updateResident_forbidden:
  assumes "user req = Some u" and "role u \<noteq> Some ''admin''" and "uid u \<noteq> params_id req"
  shows "updateResident clk fault usrs req =
           (errorResponse (clk 0) (Some 403) (Some ''Not authorized to update this resident profile'') None, usrs)"
  using assms by (simp add: updateResident_def Let_def)

lemma updateResident_other_docs:
  assumes "rid \<noteq> params_id req"
  shows "snd (updateResident clk fault usrs req) rid = usrs rid"
  using assms
  by (simp add: updateResident_def Let_def split: option.splits db_fault.splits)

lemma updateResident_dom: "dom (snd (updateResident clk fault usrs req)) = dom usrs"
  by (auto simp: updateResident_def Let_def split: option.splits db_fault.splits if_splits)

lemma updateResident_frame:
  assumes "user req = Some u" and "f \<notin> writable_fields u"
  shows "stored_field (snd (updateResident clk fault usrs req)) (params_id req) f
           = stored_field usrs (params_id req) f"
  using assms
  by (auto simp: updateResident_def Let_def stored_field_def writable_fields_def map_add_def
                 set_if_truthy_other
           split: option.splits db_fault.splits if_splits)

lemma updateResident_ignores_role:
  "updateResident clk fault usrs (req\<lparr>body := (body req)(''role'' := r)\<rparr>) = updateResident clk fault usrs req"
  by (simp add: updateResident_def Let_def)

lemma updateResident_own:
  assumes "user req = Some u" and "uid u = params_id req" and "usrs (params_id req) = Some d"
  shows "status (fst (updateResident clk NoFault usrs req)) = 200
         \<and> stored_field (snd (updateResident clk NoFault usrs req)) (params_id req) ''updatedAt'' = Some (JStr (clk 0))
         \<and> stored_field (snd (updateResident clk NoFault usrs req)) (params_id req) ''displayName''
             = (if truthy (body req ''name'') then body req ''name'' else d ''displayName'')
         \<and> stored_field (snd (updateResident clk NoFault usrs req)) (params_id req) ''phoneNumber''
             = (if truthy (body req ''phoneNumber'') then body req ''phoneNumber'' else d ''phoneNumber'')"
  using assms
  by (auto simp: updateResident_def Let_def stored_field_def map_add_def successResponse_def
                 set_if_truthy_other set_if_truthy_same
           split: option.splits)

text \<open>
  C6. For \<open>updateResident\<close> called by an authenticated requester \<open>u\<close>:
  \<^item> if \<open>u\<close>'s role is not \<open>admin\<close> and \<open>u\<close>'s uid differs from the target id, the answer is HTTP 403
    and the \<open>users\<close> collection is unchanged;
  \<^item> whatever the request, no document is created or deleted, no document other than the target
    changes, and in the target only \<open>displayName\<close>, \<open>phoneNumber\<close>, \<open>updatedAt\<close> (and
    \<open>flatNumber\<close>, \<open>blockNumber\<close> when \<open>u\<close> is admin) can change; the stored \<open>role\<close> never does;
  \<^item> a \<open>role\<close> field in the request body has no effect at all on the answer or the store;
  \<^item> a requester updating their own existing record, with the database available, gets 200,
    \<open>updatedAt\<close> is set and \<open>displayName\<close>/\<open>phoneNumber\<close> take the truthy values supplied.
\<close>

theorem updateResident_ownership:
  assumes "user req = Some u"
  shows "(role u \<noteq> Some ''admin'' \<and> uid u \<noteq> params_id req \<longrightarrow>
            updateResident clk fault usrs req =
              (errorResponse (clk 0) (Some 403) (Some ''Not authorized to update this resident profile'') None, usrs)
            \<and> status (fst (updateResident clk fault usrs req)) = 403)
       \<and> dom (snd (updateResident clk fault usrs req)) = dom usrs
       \<and> (\<forall>rid f. rid \<noteq> params_id req \<or> f \<notin> writable_fields u \<longrightarrow>
            stored_field (snd (updateResident clk fault usrs req)) rid f = stored_field usrs rid f)
       \<and> stored_field (snd (updateResident clk fault usrs req)) (params_id req) ''role''
            = stored_field usrs (params_id req) ''role''
       \<and> (\<forall>r. updateResident clk fault usrs (req\<lparr>body := (body req)(''role'' := r)\<rparr>)
                = updateResident clk fault usrs req)
       \<and> (\<forall>d. uid u = params_id req \<and> usrs (params_id req) = Some d \<longrightarrow>
            status (fst (updateResident clk NoFault usrs req)) = 200
            \<and> stored_field (snd (updateResident clk NoFault usrs req)) (params_id req) ''updatedAt''
                = Some (JStr (clk 0))
            \<and> stored_field (snd (updateResident clk NoFault usrs req)) (params_id req) ''displayName''
                = (if truthy (body req ''name'') then body req ''name'' else d ''displayName'')
            \<and> stored_field (snd (updateResident clk NoFault usrs req)) (params_id req) ''phoneNumber''
                = (if truthy (body req ''phoneNumber'') then body req ''phoneNumber'' else d ''phoneNumber''))"
proof (intro conjI impI allI)
  assume "role u \<noteq> Some ''admin'' \<and> uid u \<noteq> params_id req"
  then have r: "updateResident clk fault usrs req =
      (errorResponse (clk 0) (Some 403) (Some ''Not authorized to update this resident profile'') None, usrs)"
    using updateResident_forbidden [OF assms] by blast
  show "updateResident clk fault usrs req =
      (errorResponse (clk 0) (Some 403) (Some ''Not authorized to update this resident profile'') None, usrs)"
    by (rule r)
  show "status (fst (updateResident clk fault usrs req)) = 403"
    by (simp add: r errorResponse_def)
next
  show "dom (snd (updateResident clk fault usrs req)) = dom usrs"
    by (rule updateResident_dom)
next
  fix rid f
  assume "rid \<noteq> params_id req \<or> f \<notin> writable_fields u"
  then show "stored_field (snd (updateResident clk fault usrs req)) rid f = stored_field usrs rid f"
  proof
    assume "rid \<noteq> params_id req"
    then show ?thesis by (simp add: stored_field_def updateResident_other_docs)
  next
    assume nw: "f \<notin> writable_fields u"
    show ?thesis
    proof (cases "rid = params_id req")
      case True
      then show ?thesis using updateResident_frame [OF assms nw] by simp
    next
      case False
      then show ?thesis by (simp add: stored_field_def updateResident_other_docs)
    qed
  qed
next
  have "''role'' \<notin> writable_fields u" by (simp add: writable_fields_def)
  then show "stored_field (snd (updateResident clk fault usrs req)) (params_id req) ''role''
               = stored_field usrs (params_id req) ''role''"
    by (rule updateResident_frame [OF assms])
next
  fix r
  show "updateResident clk fault usrs (req\<lparr>body := (body req)(''role'' := r)\<rparr>)
          = updateResident clk fault usrs req"
    by (rule updateResident_ignores_role)
next
  fix d
  assume own: "uid u = params_id req \<and> usrs (params_id req) = Some d"
  note o = updateResident_own [where usrs = usrs and d = d and clk = clk, OF assms conjunct1 [OF own] conjunct2 [OF own]]
  show "status (fst (updateResident clk NoFault usrs req)) = 200" using o by blast
  show "stored_field (snd (updateResident clk NoFault usrs req)) (params_id req) ''updatedAt''
          = Some (JStr (clk 0))" using o by blast
  show "stored_field (snd (updateResident clk NoFault usrs req)) (params_id req) ''displayName''
          = (if truthy (body req ''name'') then body req ''name'' else d ''displayName'')" using o by blast
  show "stored_field (snd (updateResident clk NoFault usrs req)) (params_id req) ''phoneNumber''
          = (if truthy (body req ''phoneNumber'') then body req ''phoneNumber'' else d ''phoneNumber'')"
    using o by blast
qed

theorem updateResident_ownership_witness:
  "user (ex_request ''bob'' ''resident'' ''alice'')
     = Some \<lparr> uid = ''bob'', email = None, role = Some ''resident'' \<rparr>
   \<and> status (fst (updateResident ex_clock NoFault ex_users (ex_request ''bob'' ''resident'' ''alice''))) = 403
   \<and> snd (updateResident ex_clock NoFault ex_users (ex_request ''bob'' ''resident'' ''alice'')) = ex_users
   \<and> user ex_update_request = Some \<lparr> uid = ''alice'', email = None, role = Some ''resident'' \<rparr>
   \<and> status (fst (updateResident ex_clock NoFault ex_users ex_update_request)) = 200
   \<and> stored_field (snd (updateResident ex_clock NoFault ex_users ex_update_request)) ''alice'' ''displayName''
        = Some (JStr ''Al'')
   \<and> stored_field (snd (updateResident ex_clock NoFault ex_users ex_update_request)) ''alice'' ''role''
        = Some (JStr ''resident'')"
proof -
  let ?bob = "\<lparr> uid = ''bob'', email = None, role = Some ''resident'' \<rparr>"
  let ?alice = "\<lparr> uid = ''alice'', email = None, role = Some ''resident'' \<rparr>"
  let ?r1 = "ex_request ''bob'' ''resident'' ''alice''"
  have u1: "user ?r1 = Some ?bob"
    by (simp add: ex_request_def)
  have foreign: "role ?bob \<noteq> Some ''admin'' \<and> uid ?bob \<noteq> params_id ?r1"
    by (simp add: ex_request_def)
  note t1 = updateResident_ownership [where clk = ex_clock and fault = NoFault and usrs = ex_users, OF u1]
  from t1 [THEN conjunct1, rule_format, OF foreign]
  have st1: "status (fst (updateResident ex_clock NoFault ex_users ?r1)) = 403"
    and sn1: "snd (updateResident ex_clock NoFault ex_users ?r1) = ex_users"
    by (simp_all add: errorResponse_def)
  have u2: "user ex_update_request = Some ?alice"
    by (simp add: ex_update_request_def ex_request_def)
  have pid: "params_id ex_update_request = ''alice''"
    by (simp add: ex_update_request_def ex_request_def)
  have nm: "body ex_update_request ''name'' = Some (JStr ''Al'')"
    by (simp add: ex_update_request_def)
  have own: "uid ?alice = params_id ex_update_request
      \<and> ex_users (params_id ex_update_request)
          = Some [''email'' \<mapsto> JStr ''alice@example.com'', ''displayName'' \<mapsto> JStr ''Alice'',
                  ''flatNumber'' \<mapsto> JStr ''12'', ''role'' \<mapsto> JStr ''resident'']"
    by (simp add: pid ex_users_def)
  note t2 = updateResident_ownership [where clk = ex_clock and fault = NoFault and usrs = ex_users, OF u2]
  note role_kept = t2 [THEN conjunct2, THEN conjunct2, THEN conjunct2, THEN conjunct1]
  note own_ok = t2 [THEN conjunct2, THEN conjunct2, THEN conjunct2, THEN conjunct2, THEN conjunct2,
                    rule_format, OF own]
  have st2: "status (fst (updateResident ex_clock NoFault ex_users ex_update_request)) = 200"
    using own_ok by (rule conjunct1)
  have dn: "stored_field (snd (updateResident ex_clock NoFault ex_users ex_update_request)) ''alice'' ''displayName''
              = Some (JStr ''Al'')"
    using own_ok [THEN conjunct2, THEN conjunct2, THEN conjunct1] by (simp add: pid nm)
  have rl: "stored_field (snd (updateResident ex_clock NoFault ex_users ex_update_request)) ''alice'' ''role''
              = Some (JStr ''resident'')"
    using role_kept by (simp add: pid stored_field_def ex_users_def)
  show ?thesis
    by (intro conjI u1 st1 sn1 u2 st2 dn rl)
qed

subsection \<open>Authentication middleware\<close>

lemma presented_tokenD:
  assumes "presented_token req = Some t"
  shows "\<exists>a. authorization req = Some a \<and> a \<noteq> [] \<and> startsWith a ''Bearer '' \<and> bearer_token a = Some t"
  using assms
  by (auto simp: presented_token_def startsWith_def split: option.splits if_splits)

lemma verifyAuth_denied:
  assumes "\<not> well_formed_header (authorization req)"
  shows "verifyAuth e v req = (Respond (plain_error 401 ''Access denied. No token provided.''), [])"
  using assms by (simp add: verifyAuth_def well_formed_header_def split: option.splits)

lemma authenticateUser_denied:
  assumes "\<not> well_formed_header (authorization req)"
  shows "authenticateUser v req = (Respond (plain_error 401 ''Access denied. No token provided.''), [])"
  using assms by (simp add: authenticateUser_def well_formed_header_def split: option.splits)

lemma verifyAuth_bypass:
  assumes "presented_token req = Some t" and "bypass e t"
  shows "verifyAuth e v req = (Next (req\<lparr>user := Some dev_user\<rparr>), [])"
  using presented_tokenD [OF assms(1)] assms(2)
  by (auto simp: verifyAuth_def bypass_def)

lemma verifyAuth_rejected:
  assumes "presented_token req = Some t" and "\<not> bypass e t" and "v t = Inl err"
  shows "verifyAuth e v req = (Respond (plain_error 403 ''Invalid token.''), [t])"
  using presented_tokenD [OF assms(1)] assms(2,3)
  by (auto simp: verifyAuth_def bypass_def)

lemma verifyAuth_verified:
  assumes "presented_token req = Some t" and "\<not> bypass e t" and "v t = Inr d"
  shows "verifyAuth e v req =
           (Next (req\<lparr>user := Some \<lparr> uid = tok_uid d, email = tok_email d,
                                     role = Some (role_or (tok_role d) ''user'') \<rparr>\<rparr>), [t])"
  using presented_tokenD [OF assms(1)] assms(2,3)
  by (auto simp: verifyAuth_def bypass_def)

lemma authenticateUser_rejected:
  assumes "presented_token req = Some t" and "v t = Inl err"
  shows "authenticateUser v req = (Respond (plain_error 403 ''Invalid or expired token''), [t])"
  using presented_tokenD [OF assms(1)] assms(2)
  by (auto simp: authenticateUser_def)

lemma authenticateUser_verified:
  assumes "presented_token req = Some t" and "v t = Inr d"
  shows "authenticateUser v req =
           (Next (req\<lparr>user := Some \<lparr> uid = tok_uid d, email = tok_email d,
                                     role = Some (role_or (tok_role d) ''resident'') \<rparr>\<rparr>), [t])"
  using presented_tokenD [OF assms(1)] assms(2)
  by (auto simp: authenticateUser_def)

text \<open>Every request is either without a well-formed header or presents a token.\<close>

lemma header_cases:
  "\<not> well_formed_header (authorization req) \<or> (\<exists>t. presented_token req = Some t)"
  by (auto simp: well_formed_header_def presented_token_def bearer_token_defined split: option.splits)

lemma role_or_claim: "r \<noteq> [] \<Longrightarrow> role_or (Some r) dflt = r"
  by (simp add: role_or_def)

lemma role_or_default: "c = None \<or> c = Some [] \<Longrightarrow> role_or c dflt = dflt"
  by (auto simp: role_or_def)

text \<open>
  C1, as the code has it. For every request whose token the identity provider verifies,
  outside the development bypass, \<open>verifyAuth\<close> and \<open>authenticateUser\<close> continue with a
  context whose uid and email are those of the decoded token and whose role is the
  \<open>role\<close> claim of the decoded token when that claim is a non-empty string, and otherwise
  the default \<open>user\<close> (\<open>verifyAuth\<close>) or \<open>resident\<close> (\<open>authenticateUser\<close>). Neither middleware
  takes the \<open>users\<close> collection: no record is read and none is created.
\<close>

theorem role_from_token_claim:
  assumes "presented_token req = Some t" and "v t = Inr d" and "\<not> bypass e t"
  shows "fst (verifyAuth e v req) =
           Next (req\<lparr>user := Some \<lparr> uid = tok_uid d, email = tok_email d,
                                    role = Some (role_or (tok_role d) ''user'') \<rparr>\<rparr>)
       \<and> fst (authenticateUser v req) =
           Next (req\<lparr>user := Some \<lparr> uid = tok_uid d, email = tok_email d,
                                    role = Some (role_or (tok_role d) ''resident'') \<rparr>\<rparr>)
       \<and> (\<forall>r. tok_role d = Some r \<and> r \<noteq> [] \<longrightarrow>
              attached_role (fst (verifyAuth e v req)) = Some r
            \<and> attached_role (fst (authenticateUser v req)) = Some r)
       \<and> (tok_role d = None \<or> tok_role d = Some [] \<longrightarrow>
              attached_role (fst (verifyAuth e v req)) = Some ''user''
            \<and> attached_role (fst (authenticateUser v req)) = Some ''resident'')"
proof -
  note va = verifyAuth_verified [where v = v, OF assms(1,3,2)]
  note au = authenticateUser_verified [where v = v, OF assms(1,2)]
  show ?thesis
    by (auto simp: va au attached_role_def role_or_claim role_or_default)
qed

theorem role_from_token_claim_witness:
  "presented_token (ex_unauthenticated ''Bearer abc'') = Some ''abc''
   \<and> ex_verifier ''abc'' = Inr \<lparr> tok_uid = ''alice'', tok_email = Some ''alice@example.com'', tok_role = Some ''admin'' \<rparr>
   \<and> \<not> bypass ex_production ''abc''
   \<and> attached_role (fst (verifyAuth ex_production ex_verifier (ex_unauthenticated ''Bearer abc''))) = Some ''admin''
   \<and> attached_role (fst (authenticateUser ex_verifier (ex_unauthenticated ''Bearer abc''))) = Some ''admin''"
proof -
  let ?d = "\<lparr> tok_uid = ''alice'', tok_email = Some ''alice@example.com'', tok_role = Some ''admin'' \<rparr>"
  have p: "presented_token (ex_unauthenticated ''Bearer abc'') = Some ''abc''"
    by (simp add: presented_token_def ex_unauthenticated_def startsWith_def bearer_token_def)
  have v: "ex_verifier ''abc'' = Inr ?d"
    by (simp add: ex_verifier_def)
  have nb: "\<not> bypass ex_production ''abc''"
    by (simp add: bypass_def ex_production_def)
  have claim: "tok_role ?d = Some ''admin'' \<and> ''admin'' \<noteq> []"
    by simp
  note t = role_from_token_claim [where v = ex_verifier, OF p v nb]
  note roles = t [THEN conjunct2, THEN conjunct2, THEN conjunct1, rule_format, OF claim]
  show ?thesis
    by (intro conjI p v nb roles [THEN conjunct1] roles [THEN conjunct2])
qed

text \<open>
  C1 as stated fails: Alice's \<open>users\<close> record holds role \<open>resident\<close>, her token still
  carries the claim \<open>admin\<close>; both middlewares attach \<open>admin\<close>.
\<close>

theorem role_not_from_record:
  "\<not> role_from_record ex_users (fst (verifyAuth ex_production ex_verifier (ex_unauthenticated ''Bearer abc'')))
   \<and> \<not> role_from_record ex_users (fst (authenticateUser ex_verifier (ex_unauthenticated ''Bearer abc'')))"
  by (simp add: role_from_record_def spec_record_role_def verifyAuth_def authenticateUser_def
                ex_users_def ex_production_def ex_verifier_def ex_unauthenticated_def
                startsWith_def bearer_token_def role_or_def)

text \<open>
  C3, as the code has it. A request whose \<open>Authorization\<close> header is absent or does not start
  with \<open>Bearer\<close> and a space is answered with HTTP 401 and the body
  \<open>{success: false, message: 'Access denied. No token provided.'}\<close>, without any call to the
  provider. A request whose token the provider rejects, for whatever reason, is answered
  with HTTP 403 and the fixed body \<open>{success: false, message: 'Invalid token.'}\<close>
  (\<open>'Invalid or expired token'\<close> in \<open>authenticateUser\<close>), in which nothing of the provider's
  error appears. In both cases the middleware does not continue to the handler.
\<close>

theorem auth_failure_responses:
  "(\<not> well_formed_header (authorization req) \<longrightarrow>
       verifyAuth e v req = (Respond (plain_error 401 ''Access denied. No token provided.''), [])
     \<and> authenticateUser v req = (Respond (plain_error 401 ''Access denied. No token provided.''), [])
     \<and> responds_with 401 (fst (verifyAuth e v req))
     \<and> responds_with 401 (fst (authenticateUser v req)))
   \<and> (\<forall>t err. presented_token req = Some t \<and> v t = Inl err \<longrightarrow>
       authenticateUser v req = (Respond (plain_error 403 ''Invalid or expired token''), [t])
     \<and> responds_with 403 (fst (authenticateUser v req))
     \<and> (\<not> bypass e t \<longrightarrow>
          verifyAuth e v req = (Respond (plain_error 403 ''Invalid token.''), [t])
        \<and> responds_with 403 (fst (verifyAuth e v req))))"
  by (auto simp: verifyAuth_denied authenticateUser_denied verifyAuth_rejected authenticateUser_rejected
                 responds_with_def plain_error_def)

theorem auth_failure_responses_witness:
  "\<not> well_formed_header (authorization (ex_unauthenticated ''Basic abc''))
   \<and> responds_with 401 (fst (verifyAuth ex_production ex_rejecting_verifier (ex_unauthenticated ''Basic abc'')))
   \<and> presented_token (ex_unauthenticated ''Bearer abc'') = Some ''abc''
   \<and> ex_rejecting_verifier ''abc''
       = Inl \<lparr> err_code = ''auth/id-token-expired'', err_message = ''Firebase ID token has expired.'' \<rparr>
   \<and> \<not> bypass ex_production ''abc''
   \<and> verifyAuth ex_production ex_rejecting_verifier (ex_unauthenticated ''Bearer abc'')
       = (Respond (plain_error 403 ''Invalid token.''), [''abc''])"
proof -
  have h: "\<not> well_formed_header (authorization (ex_unauthenticated ''Basic abc''))"
    by (simp add: well_formed_header_def ex_unauthenticated_def startsWith_def)
  have p: "presented_token (ex_unauthenticated ''Bearer abc'') = Some ''abc''"
    by (simp add: presented_token_def ex_unauthenticated_def startsWith_def bearer_token_def)
  have v: "ex_rejecting_verifier ''abc''
       = Inl \<lparr> err_code = ''auth/id-token-expired'', err_message = ''Firebase ID token has expired.'' \<rparr>"
    by (simp add: ex_rejecting_verifier_def)
  have nb: "\<not> bypass ex_production ''abc''"
    by (simp add: bypass_def ex_production_def)
  note t1 = auth_failure_responses [where req = "ex_unauthenticated ''Basic abc''" and e = ex_production
      and v = ex_rejecting_verifier, THEN conjunct1, rule_format, OF h]
  note t2 = auth_failure_responses [where req = "ex_unauthenticated ''Bearer abc''" and e = ex_production
      and v = ex_rejecting_verifier, THEN conjunct2, rule_format, OF conjI [OF p v]]
  note t3 = t2 [THEN conjunct2, THEN conjunct2, rule_format, OF nb]
  show ?thesis
    by (intro conjI h p v nb t1 [THEN conjunct2, THEN conjunct2, THEN conjunct1] t3 [THEN conjunct1])
qed

text \<open>
  C3 as stated fails: an expired token is answered with 403, not 401, by both middlewares.
\<close>

theorem rejected_token_not_401:
  "\<not> responds_with 401 (fst (verifyAuth ex_production ex_rejecting_verifier (ex_unauthenticated ''Bearer abc'')))
   \<and> \<not> responds_with 401 (fst (authenticateUser ex_rejecting_verifier (ex_unauthenticated ''Bearer abc'')))"
  by (simp add: responds_with_def verifyAuth_def authenticateUser_def plain_error_def
                ex_production_def ex_rejecting_verifier_def ex_unauthenticated_def
                startsWith_def bearer_token_def)

text \<open>
  C8. When \<open>NODE_ENV\<close> is not \<open>development\<close>, a request presenting a token that begins with
  \<open>simulated_token_\<close> is treated like any other: the token, and only it, is submitted to
  \<open>auth.verifyIdToken\<close>; if the provider rejects it the answer is 403; if the request
  continues, it does so with the identity the provider decoded, so any identity granted is
  backed by a successful verification and never by the prefix.
\<close>

theorem bypass_disabled_outside_development:
  assumes "NODE_ENV e \<noteq> Some ''development''"
    and "presented_token req = Some t" and "startsWith t ''simulated_token_''"
  shows "snd (verifyAuth e v req) = [t]
       \<and> (\<forall>err. v t = Inl err \<longrightarrow>
            fst (verifyAuth e v req) = Respond (plain_error 403 ''Invalid token.''))
       \<and> (\<forall>d. v t = Inr d \<longrightarrow>
            fst (verifyAuth e v req) =
              Next (req\<lparr>user := Some \<lparr> uid = tok_uid d, email = tok_email d,
                                       role = Some (role_or (tok_role d) ''user'') \<rparr>\<rparr>))
       \<and> (continues (fst (verifyAuth e v req)) \<longrightarrow> (\<exists>d. v t = Inr d))"
proof -
  have nb: "\<not> bypass e t" using assms(1) by (simp add: bypass_def)
  show ?thesis
  proof (cases "v t")
    case (Inl err)
    then show ?thesis
      by (simp add: verifyAuth_rejected [where v = v, OF assms(2) nb Inl] continues_def)
  next
    case (Inr d)
    then show ?thesis
      by (simp add: verifyAuth_verified [where v = v, OF assms(2) nb Inr] continues_def)
  qed
qed

theorem bypass_disabled_outside_development_witness:
  "NODE_ENV ex_production \<noteq> Some ''development''
   \<and> presented_token (ex_unauthenticated ''Bearer simulated_token_1'') = Some ''simulated_token_1''
   \<and> startsWith ''simulated_token_1'' ''simulated_token_''
   \<and> snd (verifyAuth ex_production ex_rejecting_verifier (ex_unauthenticated ''Bearer simulated_token_1''))
       = [''simulated_token_1'']
   \<and> fst (verifyAuth ex_production ex_rejecting_verifier (ex_unauthenticated ''Bearer simulated_token_1''))
       = Respond (plain_error 403 ''Invalid token.'')"
proof -
  have n: "NODE_ENV ex_production \<noteq> Some ''development''"
    by (simp add: ex_production_def)
  have p: "presented_token (ex_unauthenticated ''Bearer simulated_token_1'') = Some ''simulated_token_1''"
    by (simp add: presented_token_def ex_unauthenticated_def startsWith_def bearer_token_def)
  have s: "startsWith ''simulated_token_1'' ''simulated_token_''"
    by (simp add: startsWith_def)
  have v: "ex_rejecting_verifier ''simulated_token_1''
       = Inl \<lparr> err_code = ''auth/id-token-expired'', err_message = ''Firebase ID token has expired.'' \<rparr>"
    by (simp add: ex_rejecting_verifier_def)
  note t = bypass_disabled_outside_development [where v = ex_rejecting_verifier, OF n p s]
  show ?thesis
    by (intro conjI n p s t [THEN conjunct1] t [THEN conjunct2, THEN conjunct1, rule_format, OF v])
qed

text \<open>
  C10. When \<open>NODE_ENV\<close> is \<open>development\<close>, a request presenting a token that begins with
  \<open>simulated_token_\<close> continues as the fixed identity \<open>dev-user-123\<close>, \<open>dev@example.com\<close>,
  role \<open>admin\<close>, whatever the provider would say and with no token submitted to it (the
  middleware has no access to the database), and such a request passes \<open>verifyAdmin\<close>: an
  admin-only route reaches its handler.
\<close>

theorem development_bypass:
  assumes "NODE_ENV e = Some ''development''"
    and "presented_token req = Some t" and "startsWith t ''simulated_token_''"
  shows "verifyAuth e v req = (Next (req\<lparr>user := Some dev_user\<rparr>), [])
       \<and> dev_user = \<lparr> uid = ''dev-user-123'', email = Some ''dev@example.com'', role = Some ''admin'' \<rparr>
       \<and> verifyAdmin (req\<lparr>user := Some dev_user\<rparr>) = Next (req\<lparr>user := Some dev_user\<rparr>)
       \<and> admin_route e v req = Next (req\<lparr>user := Some dev_user\<rparr>)"
proof -
  have b: "bypass e t" using assms(1,3) by (simp add: bypass_def)
  note va = verifyAuth_bypass [OF assms(2) b]
  show ?thesis
    by (simp add: va admin_route_def verifyAdmin_def dev_user_def)
qed

theorem development_bypass_witness:
  "NODE_ENV ex_development = Some ''development''
   \<and> presented_token (ex_unauthenticated ''Bearer simulated_token_1'') = Some ''simulated_token_1''
   \<and> startsWith ''simulated_token_1'' ''simulated_token_''
   \<and> verifyAuth ex_development ex_rejecting_verifier (ex_unauthenticated ''Bearer simulated_token_1'')
       = (Next ((ex_unauthenticated ''Bearer simulated_token_1'')\<lparr>user := Some dev_user\<rparr>), [])
   \<and> admin_route ex_development ex_rejecting_verifier (ex_unauthenticated ''Bearer simulated_token_1'')
       = Next ((ex_unauthenticated ''Bearer simulated_token_1'')\<lparr>user := Some dev_user\<rparr>)"
proof -
  have n: "NODE_ENV ex_development = Some ''development''"
    by (simp add: ex_development_def)
  have p: "presented_token (ex_unauthenticated ''Bearer simulated_token_1'') = Some ''simulated_token_1''"
    by (simp add: presented_token_def ex_unauthenticated_def startsWith_def bearer_token_def)
  have s: "startsWith ''simulated_token_1'' ''simulated_token_''"
    by (simp add: startsWith_def)
  note t = development_bypass [where v = ex_rejecting_verifier, OF n p s]
  show ?thesis
    by (intro conjI n p s t [THEN conjunct1] t [THEN conjunct2, THEN conjunct2, THEN conjunct2])
qed

subsection \<open>Admin gate\<close>

text \<open>\<open>requireAdmin\<close> continues exactly for a context with role \<open>admin\<close> or \<open>super_admin\<close>,
  answers 401 without a context and 403 otherwise.\<close>

lemma requireAdmin_gate:
  "(continues (requireAdmin req) \<longleftrightarrow>
      (\<exists>u. user req = Some u \<and> (role u = Some ''admin'' \<or> role u = Some ''super_admin'')))
   \<and> (user req = None \<longrightarrow> responds_with 401 (requireAdmin req))
   \<and> (\<forall>u. user req = Some u \<and> role u \<noteq> Some ''admin'' \<and> role u \<noteq> Some ''super_admin'' \<longrightarrow>
         responds_with 403 (requireAdmin req))
   \<and> (continues (requireAdmin req) \<longrightarrow> requireAdmin req = Next req)"
  by (auto simp: requireAdmin_def continues_def responds_with_def plain_error_def split: option.splits)

text \<open>\<open>verifyAdmin\<close> continues exactly for a context with role \<open>admin\<close>.\<close>

lemma verifyAdmin_gate:
  "(continues (verifyAdmin req) \<longleftrightarrow> (\<exists>u. user req = Some u \<and> role u = Some ''admin''))
   \<and> (user req = None \<longrightarrow> responds_with 401 (verifyAdmin req))
   \<and> (\<forall>u. user req = Some u \<and> role u \<noteq> Some ''admin'' \<longrightarrow> responds_with 403 (verifyAdmin req))
   \<and> (continues (verifyAdmin req) \<longrightarrow> verifyAdmin req = Next req)"
  by (auto simp: verifyAdmin_def continues_def responds_with_def plain_error_def split: option.splits)

text \<open>
  C2 at a request authenticated with role \<open>super_admin\<close>: \<open>requireAdmin\<close> continues,
  \<open>verifyAdmin\<close>, the gate the routes use, answers 403.
\<close>

theorem verifyAdmin_rejects_super_admin:
  "verifyAdmin (ex_request ''root'' ''super_admin'' ''ev1'')
     = Respond (plain_error 403 ''Access denied. Admin privileges required.'')
   \<and> requireAdmin (ex_request ''root'' ''super_admin'' ''ev1'') = Next (ex_request ''root'' ''super_admin'' ''ev1'')"
  by (simp add: verifyAdmin_def requireAdmin_def ex_request_def)

subsection \<open>Response envelope\<close>

lemma iso_timestamp: "iso8601 ts \<Longrightarrow> is_iso_timestamp (Some (JStr ts))"
  by (simp add: is_iso_timestamp_def)

lemma successResponse_envelope: "iso8601 ts \<Longrightarrow> success_envelope (successResponse ts c m d)"
  by (simp add: success_envelope_def successResponse_def field_def is_string_def iso_timestamp
           split: option.splits)

lemma errorResponse_envelope: "iso8601 ts \<Longrightarrow> error_envelope (errorResponse ts c m err)"
  by (simp add: error_envelope_def errorResponse_def field_def is_string_def iso_timestamp)

lemma errorResponse_eh_envelope: "iso8601 ts \<Longrightarrow> error_envelope (errorResponse_eh ts c m err)"
  by (simp add: error_envelope_def errorResponse_eh_def field_def is_string_def iso_timestamp)

lemma enveloped_success: "iso8601 ts \<Longrightarrow> c < 400 \<Longrightarrow> enveloped (successResponse ts (Some c) m d)"
  using successResponse_envelope [of ts "Some c" m d]
  by (simp add: enveloped_def successResponse_def)

lemma enveloped_error: "iso8601 ts \<Longrightarrow> 400 \<le> c \<Longrightarrow> enveloped (errorResponse ts (Some c) m err)"
  using errorResponse_envelope [of ts "Some c" m err]
  by (simp add: enveloped_def errorResponse_def)

lemma rsvpToEvent_enveloped:
  "\<forall>n. iso8601 (clk n) \<Longrightarrow> enveloped (fst (rsvpToEvent clk fault evs req))"
  by (simp add: rsvpToEvent_def Let_def enveloped_success enveloped_error
           split: option.splits db_fault.splits)

lemma cancelRsvp_enveloped:
  "\<forall>n. iso8601 (clk n) \<Longrightarrow> enveloped (fst (cancelRsvp clk fault evs req))"
  by (simp add: cancelRsvp_def Let_def enveloped_success enveloped_error
           split: option.splits db_fault.splits)

lemma updateResident_enveloped:
  "\<forall>n. iso8601 (clk n) \<Longrightarrow> enveloped (fst (updateResident clk fault usrs req))"
  by (simp add: updateResident_def Let_def enveloped_success enveloped_error
           split: option.splits db_fault.splits)

lemma getAnnouncements_enveloped: "iso8601 ts \<Longrightarrow> enveloped (getAnnouncements ts run)"
  by (simp add: getAnnouncements_def caught_def enveloped_success enveloped_error
           split: sum.splits option.splits bool.splits)

lemma getAnnouncementById_enveloped: "iso8601 ts \<Longrightarrow> enveloped (getAnnouncementById ts got)"
  by (simp add: getAnnouncementById_def caught_def enveloped_success enveloped_error
           split: sum.splits option.splits bool.splits)

lemma createAnnouncement_enveloped: "iso8601 ts \<Longrightarrow> enveloped (createAnnouncement ts req added)"
  by (simp add: createAnnouncement_def caught_def enveloped_success enveloped_error
           split: sum.splits option.splits bool.splits)

lemma updateAnnouncement_enveloped: "iso8601 ts \<Longrightarrow> enveloped (updateAnnouncement ts found wrote)"
  by (simp add: updateAnnouncement_def caught_def enveloped_success enveloped_error
           split: sum.splits option.splits bool.splits)

lemma deleteAnnouncement_enveloped: "iso8601 ts \<Longrightarrow> enveloped (deleteAnnouncement ts found wrote)"
  by (simp add: deleteAnnouncement_def caught_def enveloped_success enveloped_error
           split: sum.splits option.splits bool.splits)

lemma getApiInfo_enveloped: "iso8601 ts \<Longrightarrow> enveloped (getApiInfo ts run)"
  by (simp add: getApiInfo_def caught_def enveloped_success enveloped_error
           split: sum.splits option.splits bool.splits)

lemma getEnvInfo_enveloped: "iso8601 ts \<Longrightarrow> enveloped (getEnvInfo ts run)"
  by (simp add: getEnvInfo_def caught_def enveloped_success enveloped_error
           split: sum.splits option.splits bool.splits)

lemma getGalleryImages_enveloped: "iso8601 ts \<Longrightarrow> enveloped (getGalleryImages ts run)"
  by (simp add: getGalleryImages_def caught_def enveloped_success enveloped_error
           split: sum.splits option.splits bool.splits)

lemma getGalleryImageById_enveloped: "iso8601 ts \<Longrightarrow> enveloped (getGalleryImageById ts got)"
  by (simp add: getGalleryImageById_def caught_def enveloped_success enveloped_error
           split: sum.splits option.splits bool.splits)

lemma createGalleryImage_enveloped: "iso8601 ts \<Longrightarrow> enveloped (createGalleryImage ts req added)"
  by (simp add: createGalleryImage_def caught_def enveloped_success enveloped_error
           split: sum.splits option.splits bool.splits)

lemma updateGalleryImage_enveloped: "iso8601 ts \<Longrightarrow> enveloped (updateGalleryImage ts found wrote)"
  by (simp add: updateGalleryImage_def caught_def enveloped_success enveloped_error
           split: sum.splits option.splits bool.splits)

lemma deleteGalleryImage_enveloped: "iso8601 ts \<Longrightarrow> enveloped (deleteGalleryImage ts found wrote)"
  by (simp add: deleteGalleryImage_def caught_def enveloped_success enveloped_error
           split: sum.splits option.splits bool.splits)

lemma getDocuments_enveloped: "iso8601 ts \<Longrightarrow> enveloped (getDocuments ts run)"
  by (simp add: getDocuments_def caught_def enveloped_success enveloped_error
           split: sum.splits option.splits bool.splits)

lemma getDocumentById_enveloped: "iso8601 ts \<Longrightarrow> enveloped (getDocumentById ts got)"
  by (simp add: getDocumentById_def caught_def enveloped_success enveloped_error
           split: sum.splits option.splits bool.splits)

lemma createDocument_enveloped: "iso8601 ts \<Longrightarrow> enveloped (createDocument ts req added)"
  by (simp add: createDocument_def caught_def enveloped_success enveloped_error
           split: sum.splits option.splits bool.splits)

lemma updateDocument_enveloped: "iso8601 ts \<Longrightarrow> enveloped (updateDocument ts found wrote)"
  by (simp add: updateDocument_def caught_def enveloped_success enveloped_error
           split: sum.splits option.splits bool.splits)

lemma deleteDocument_enveloped: "iso8601 ts \<Longrightarrow> enveloped (deleteDocument ts found wrote)"
  by (simp add: deleteDocument_def caught_def enveloped_success enveloped_error
           split: sum.splits option.splits bool.splits)

lemma getAllResidents_enveloped: "iso8601 ts \<Longrightarrow> enveloped (getAllResidents ts run)"
  by (simp add: getAllResidents_def caught_def enveloped_success enveloped_error
           split: sum.splits option.splits bool.splits)

lemma getResidentById_enveloped: "iso8601 ts \<Longrightarrow> enveloped (getResidentById ts req got)"
  by (simp add: getResidentById_def caught_def enveloped_success enveloped_error
           split: sum.splits option.splits bool.splits)

lemma createResident_enveloped: "iso8601 ts \<Longrightarrow> enveloped (createResident ts req taken added)"
  by (simp add: createResident_def caught_def enveloped_success enveloped_error
           split: sum.splits option.splits bool.splits)

lemma deleteResident_enveloped: "iso8601 ts \<Longrightarrow> enveloped (deleteResident ts found wrote)"
  by (simp add: deleteResident_def caught_def enveloped_success enveloped_error
           split: sum.splits option.splits bool.splits)

lemma getEvents_enveloped: "iso8601 ts \<Longrightarrow> enveloped (getEvents ts run)"
  by (simp add: getEvents_def caught_def enveloped_success enveloped_error
           split: sum.splits option.splits bool.splits)

lemma getEventById_enveloped: "iso8601 ts \<Longrightarrow> enveloped (getEventById ts got)"
  by (simp add: getEventById_def caught_def enveloped_success enveloped_error
           split: sum.splits option.splits bool.splits)

lemma createEvent_enveloped: "iso8601 ts \<Longrightarrow> enveloped (createEvent ts req dated added)"
  by (simp add: createEvent_def caught_def enveloped_success enveloped_error
           split: sum.splits option.splits bool.splits)

lemma updateEvent_enveloped: "iso8601 ts \<Longrightarrow> enveloped (updateEvent ts found wrote)"
  by (simp add: updateEvent_def caught_def enveloped_success enveloped_error
           split: sum.splits option.splits bool.splits)

lemma deleteEvent_enveloped: "iso8601 ts \<Longrightarrow> enveloped (deleteEvent ts found wrote)"
  by (simp add: deleteEvent_def caught_def enveloped_success enveloped_error
           split: sum.splits option.splits bool.splits)

lemma testFirebase_enveloped: "iso8601 ts \<Longrightarrow> enveloped (testFirebase ts stamp added)"
  by (simp add: testFirebase_def caught_def enveloped_success enveloped_error
           split: sum.splits option.splits bool.splits)

lemma registerUser_enveloped: "iso8601 ts \<Longrightarrow> enveloped (registerUser ts req run)"
  by (simp add: registerUser_def caught_def enveloped_success enveloped_error
           split: sum.splits option.splits bool.splits)

lemma loginUser_enveloped: "iso8601 ts \<Longrightarrow> enveloped (loginUser ts req found run)"
  by (simp add: loginUser_def caught_def enveloped_success enveloped_error
           split: sum.splits option.splits bool.splits)

lemma forgotPassword_enveloped: "iso8601 ts \<Longrightarrow> enveloped (forgotPassword e ts req run)"
  by (simp add: forgotPassword_def caught_def enveloped_success enveloped_error
           split: sum.splits option.splits bool.splits)

lemma getCurrentUser_enveloped: "iso8601 ts \<Longrightarrow> enveloped (getCurrentUser ts req got)"
  by (simp add: getCurrentUser_def caught_def enveloped_success enveloped_error
           split: sum.splits option.splits bool.splits)

lemma updateUserProfile_enveloped: "iso8601 ts \<Longrightarrow> enveloped (updateUserProfile ts req wrote)"
  by (simp add: updateUserProfile_def caught_def enveloped_success enveloped_error
           split: sum.splits option.splits bool.splits)

lemma changePassword_enveloped: "iso8601 ts \<Longrightarrow> enveloped (changePassword ts req wrote)"
  by (simp add: changePassword_def caught_def enveloped_success enveloped_error
           split: sum.splits option.splits bool.splits)

lemma googleAuth_enveloped: "iso8601 ts \<Longrightarrow> enveloped (googleAuth ts req run)"
  by (simp add: googleAuth_def caught_def enveloped_success enveloped_error
           split: sum.splits option.splits bool.splits)

lemma asyncHandler_envelope: "iso8601 ts \<Longrightarrow> error_envelope (asyncHandler ts (Inl rej))"
  by (cases rej) (simp_all add: asyncHandler_def errorResponse_eh_envelope)

lemma errorHandler_envelope:
  "iso8601 ts \<Longrightarrow> \<forall>r. errorHandler e ts thrown = Some r \<longrightarrow> error_envelope r"
  by (auto simp: errorHandler_def errorHandler_rest_def errorResponse_envelope
           split: option.splits json.splits if_splits)

lemma plain_error_bare: "bare_error (plain_error c m)"
  by (simp add: bare_error_def plain_error_def field_def is_string_def)

lemma verifyAuth_bare: "\<forall>r. fst (verifyAuth e v req) = Respond r \<longrightarrow> bare_error r"
  by (auto simp: verifyAuth_def plain_error_bare Let_def split: option.splits sum.splits if_splits)

lemma authenticateUser_bare: "\<forall>r. fst (authenticateUser v req) = Respond r \<longrightarrow> bare_error r"
  by (auto simp: authenticateUser_def plain_error_bare Let_def split: option.splits sum.splits if_splits)

lemma verifyAdmin_bare: "\<forall>r. verifyAdmin req = Respond r \<longrightarrow> bare_error r"
  by (auto simp: verifyAdmin_def plain_error_bare split: option.splits if_splits)

lemma requireAdmin_bare: "\<forall>r. requireAdmin req = Respond r \<longrightarrow> bare_error r"
  by (auto simp: requireAdmin_def plain_error_bare split: option.splits if_splits)

lemma health_outside: "outside_envelope (health ts e)"
  by (simp add: outside_envelope_def health_def field_def split: option.splits)

lemma handler_outside: "outside_envelope (handler method pathname getDocs)"
  by (simp add: outside_envelope_def handler_def handler_collection_def handler_failed_def field_def Let_def
           split: sum.splits option.splits)

lemma handler_basic_outside: "outside_envelope (handler_basic method pathname)"
  by (simp add: outside_envelope_def handler_basic_def field_def Let_def)

text \<open>An answer outside the envelope, and an answer without timestamp, is neither envelope.\<close>

lemma outside_not_enveloped: "outside_envelope r \<Longrightarrow> \<not> success_envelope r \<and> \<not> error_envelope r"
  by (simp add: outside_envelope_def success_envelope_def error_envelope_def)

lemma bare_not_enveloped: "bare_error r \<Longrightarrow> \<not> success_envelope r \<and> \<not> error_envelope r"
  by (simp add: bare_error_def success_envelope_def error_envelope_def is_iso_timestamp_def)

text \<open>
  C7, as the code has it. Let every reading of \<open>new Date().toISOString()\<close> be an ISO-8601
  string. Then every answer of the Express backend that a controller produces (each of the
  37 handlers wrapped in \<open>asyncHandler\<close>, successes and errors alike), that \<open>asyncHandler\<close>
  produces for a rejected handler, or that \<open>errorHandler\<close> produces, carries the uniform
  envelope: below status 400 \<open>success: true\<close>, a message string, a \<open>data\<close> field and the
  ISO-8601 timestamp; from 400 on \<open>success: false\<close>, a message string and the ISO-8601
  timestamp. The answers the authentication middlewares produce themselves (401, 403)
  carry \<open>success: false\<close> and a message string and no timestamp. \<open>GET /health\<close> and the
  serverless handler of \<open>api/index.js\<close> answer outside the envelope, with no \<open>success\<close> field.
\<close>

theorem envelope_uniformity:
  assumes iso: "iso8601 ts" and clk: "\<forall>n. iso8601 (clk n)"
  shows "(\<forall>r. fst (verifyAuth e v req) = Respond r \<longrightarrow> bare_error r)
   \<and> (\<forall>r. verifyAdmin req = Respond r \<longrightarrow> bare_error r)
   \<and> (\<forall>r. fst (authenticateUser v req) = Respond r \<longrightarrow> bare_error r)
   \<and> (\<forall>r. requireAdmin req = Respond r \<longrightarrow> bare_error r)
   \<and> enveloped (fst (rsvpToEvent clk fault evs req))
   \<and> enveloped (fst (cancelRsvp clk fault evs req))
   \<and> enveloped (fst (updateResident clk fault usrs req))
   \<and> success_envelope (successResponse ts c m d)
   \<and> error_envelope (errorResponse ts c m err)
   \<and> error_envelope (asyncHandler ts (Inl rej))
   \<and> (\<forall>r. errorHandler e ts thrown = Some r \<longrightarrow> error_envelope r)
   \<and> enveloped (getAnnouncements ts run)
   \<and> enveloped (getAnnouncementById ts got)
   \<and> enveloped (createAnnouncement ts req added)
   \<and> enveloped (updateAnnouncement ts found wrote)
   \<and> enveloped (deleteAnnouncement ts found wrote)
   \<and> enveloped (getApiInfo ts run)
   \<and> enveloped (getEnvInfo ts run)
   \<and> enveloped (getGalleryImages ts run)
   \<and> enveloped (getGalleryImageById ts got)
   \<and> enveloped (createGalleryImage ts req added)
   \<and> enveloped (updateGalleryImage ts found wrote)
   \<and> enveloped (deleteGalleryImage ts found wrote)
   \<and> enveloped (getDocuments ts run)
   \<and> enveloped (getDocumentById ts got)
   \<and> enveloped (createDocument ts req added)
   \<and> enveloped (updateDocument ts found wrote)
   \<and> enveloped (deleteDocument ts found wrote)
   \<and> enveloped (getAllResidents ts run)
   \<and> enveloped (getResidentById ts req got)
   \<and> enveloped (createResident ts req taken added)
   \<and> enveloped (deleteResident ts found wrote)
   \<and> enveloped (getEvents ts run)
   \<and> enveloped (getEventById ts got)
   \<and> enveloped (createEvent ts req dated added)
   \<and> enveloped (updateEvent ts found wrote)
   \<and> enveloped (deleteEvent ts found wrote)
   \<and> enveloped (testFirebase ts stamp tested)
   \<and> enveloped (registerUser ts req run)
   \<and> enveloped (loginUser ts req found run)
   \<and> enveloped (forgotPassword e ts req link)
   \<and> enveloped (getCurrentUser ts req got)
   \<and> enveloped (updateUserProfile ts req wrote)
   \<and> enveloped (changePassword ts req wrote)
   \<and> enveloped (googleAuth ts req run)
   \<and> outside_envelope (health ts e)
   \<and> outside_envelope (handler method pathname getDocs)
   \<and> outside_envelope (handler_basic method pathname)"
  by (intro conjI
        verifyAuth_bare verifyAdmin_bare authenticateUser_bare requireAdmin_bare
        rsvpToEvent_enveloped [OF clk] cancelRsvp_enveloped [OF clk] updateResident_enveloped [OF clk]
        successResponse_envelope [OF iso] errorResponse_envelope [OF iso]
        asyncHandler_envelope [OF iso] errorHandler_envelope [OF iso]
        getAnnouncements_enveloped [OF iso]
        getAnnouncementById_enveloped [OF iso]
        createAnnouncement_enveloped [OF iso]
        updateAnnouncement_enveloped [OF iso]
        deleteAnnouncement_enveloped [OF iso]
        getApiInfo_enveloped [OF iso]
        getEnvInfo_enveloped [OF iso]
        getGalleryImages_enveloped [OF iso]
        getGalleryImageById_enveloped [OF iso]
        createGalleryImage_enveloped [OF iso]
        updateGalleryImage_enveloped [OF iso]
        deleteGalleryImage_enveloped [OF iso]
        getDocuments_enveloped [OF iso]
        getDocumentById_enveloped [OF iso]
        createDocument_enveloped [OF iso]
        updateDocument_enveloped [OF iso]
        deleteDocument_enveloped [OF iso]
        getAllResidents_enveloped [OF iso]
        getResidentById_enveloped [OF iso]
        createResident_enveloped [OF iso]
        deleteResident_enveloped [OF iso]
        getEvents_enveloped [OF iso]
        getEventById_enveloped [OF iso]
        createEvent_enveloped [OF iso]
        updateEvent_enveloped [OF iso]
        deleteEvent_enveloped [OF iso]
        testFirebase_enveloped [OF iso]
        registerUser_enveloped [OF iso]
        loginUser_enveloped [OF iso]
        forgotPassword_enveloped [OF iso]
        getCurrentUser_enveloped [OF iso]
        updateUserProfile_enveloped [OF iso]
        changePassword_enveloped [OF iso]
        googleAuth_enveloped [OF iso]
        health_outside handler_outside handler_basic_outside)

theorem envelope_uniformity_witness:
  "iso8601 ''2025-01-01T18:00:00.001Z'' \<and> (\<forall>n. iso8601 (ex_clock n))
   \<and> fst (verifyAuth ex_production ex_verifier (ex_unauthenticated ''Basic abc''))
       = Respond (plain_error 401 ''Access denied. No token provided.'')
   \<and> bare_error (plain_error 401 ''Access denied. No token provided.'')
   \<and> verifyAdmin (ex_request ''alice'' ''resident'' ''ev1'')
       = Respond (plain_error 403 ''Access denied. Admin privileges required.'')
   \<and> bare_error (plain_error 403 ''Access denied. Admin privileges required.'')
   \<and> fst (authenticateUser ex_rejecting_verifier (ex_request ''alice'' ''resident'' ''ev1''))
       = Respond (plain_error 403 ''Invalid or expired token'')
   \<and> bare_error (plain_error 403 ''Invalid or expired token'')
   \<and> requireAdmin (ex_request ''alice'' ''resident'' ''ev1'')
       = Respond (plain_error 403 ''Admin privileges required'')
   \<and> bare_error (plain_error 403 ''Admin privileges required'')
   \<and> enveloped (fst (rsvpToEvent ex_clock NoFault ex_events (ex_request ''alice'' ''resident'' ''ev1'')))
   \<and> errorHandler ex_production ''2025-01-01T18:00:00.001Z'' ex_thrown
       = Some (errorResponse ''2025-01-01T18:00:00.001Z'' (Some 401)
                 (Some ''Authentication error: Firebase ID token has expired.'')
                 (Some (JStr ''auth/id-token-expired'')))
   \<and> error_envelope (errorResponse ''2025-01-01T18:00:00.001Z'' (Some 401)
                 (Some ''Authentication error: Firebase ID token has expired.'')
                 (Some (JStr ''auth/id-token-expired'')))"
proof -
  have iso: "iso8601 ''2025-01-01T18:00:00.001Z''"
    by (simp add: iso8601_def is_digit_def)
  have clk: "\<forall>n. iso8601 (ex_clock n)"
    by (simp add: ex_clock_def iso8601_def is_digit_def)
  have a: "fst (verifyAuth ex_production ex_verifier (ex_unauthenticated ''Basic abc''))
       = Respond (plain_error 401 ''Access denied. No token provided.'')"
    by (simp add: verifyAuth_def ex_unauthenticated_def startsWith_def)
  have b: "verifyAdmin (ex_request ''alice'' ''resident'' ''ev1'')
       = Respond (plain_error 403 ''Access denied. Admin privileges required.'')"
    by (simp add: verifyAdmin_def ex_request_def)
  have c: "fst (authenticateUser ex_rejecting_verifier (ex_request ''alice'' ''resident'' ''ev1''))
       = Respond (plain_error 403 ''Invalid or expired token'')"
    by (simp add: authenticateUser_def ex_request_def ex_rejecting_verifier_def startsWith_def bearer_token_def)
  have d: "requireAdmin (ex_request ''alice'' ''resident'' ''ev1'')
       = Respond (plain_error 403 ''Admin privileges required'')"
    by (simp add: requireAdmin_def ex_request_def)
  have h: "errorHandler ex_production ''2025-01-01T18:00:00.001Z'' ex_thrown
       = Some (errorResponse ''2025-01-01T18:00:00.001Z'' (Some 401)
                 (Some ''Authentication error: Firebase ID token has expired.'')
                 (Some (JStr ''auth/id-token-expired'')))"
    by (simp add: errorHandler_def ex_thrown_def startsWith_def shown_def)
  note t = envelope_uniformity [where e = ex_production and v = ex_verifier
      and req = "ex_unauthenticated ''Basic abc''" and thrown = ex_thrown, OF iso clk]
  note u = envelope_uniformity [where v = ex_rejecting_verifier and fault = NoFault and evs = ex_events
      and req = "ex_request ''alice'' ''resident'' ''ev1''", OF iso clk]
  note a' = t [THEN conjunct1, rule_format, OF a]
  note b' = u [THEN conjunct2, THEN conjunct1, rule_format, OF b]
  note c' = u [THEN conjunct2, THEN conjunct2, THEN conjunct1, rule_format, OF c]
  note d' = u [THEN conjunct2, THEN conjunct2, THEN conjunct2, THEN conjunct1, rule_format, OF d]
  note r' = u [THEN conjunct2, THEN conjunct2, THEN conjunct2, THEN conjunct2, THEN conjunct1]
  note h' = t [THEN conjunct2, THEN conjunct2, THEN conjunct2, THEN conjunct2, THEN conjunct2, THEN conjunct2, THEN conjunct2, THEN conjunct2, THEN conjunct2, THEN conjunct2, THEN conjunct1, rule_format, OF h]
  show ?thesis
    by (intro conjI iso clk a a' b b' c c' d d' r' h h')
qed

text \<open>
  C7 as stated fails: a request whose \<open>Authorization\<close> header is not a bearer header is
  answered by \<open>verifyAuth\<close> with a 401 that is not an error envelope, it has no timestamp.
\<close>

theorem middleware_error_without_timestamp:
  "fst (verifyAuth ex_production ex_verifier (ex_unauthenticated ''Basic abc''))
     = Respond (plain_error 401 ''Access denied. No token provided.'')
   \<and> \<not> error_envelope (plain_error 401 ''Access denied. No token provided.'')
   \<and> field (plain_error 401 ''Access denied. No token provided.'') ''timestamp'' = None"
  by (simp add: verifyAuth_def ex_unauthenticated_def startsWith_def error_envelope_def plain_error_def
                field_def is_iso_timestamp_def)

subsection \<open>Client session bridge\<close>

lemma merge_user_role:
  "merge_user prev ud ''role'' = (case ud ''role'' of None \<Rightarrow> Some (JStr ''resident'') | Some r \<Rightarrow> Some r)"
  by (simp add: merge_user_def map_add_def split: option.splits)

text \<open>
  C9, as the code has it. On a signed-in session change whose token fetch succeeds, the
  provider is suspended twice with \<open>loading\<close> exposed as true: at the token fetch, with the
  current user as it was before, and at the call of \<open>/auth/me\<close>, where it already exposes the
  user built from the Firebase profile with the default role \<open>resident\<close> (never \<open>admin\<close>).
  When the listener ends loading is false, and the role is the one of the \<open>/auth/me\<close> data
  if the call succeeded and the data has a role, and the default \<open>resident\<close> otherwise.
\<close>

theorem default_role_while_loading:
  "length (fst (onAuthStateChanged s (Some fu) (TokenOk tk) me so)) = 2
   \<and> exposed_loading (fst (onAuthStateChanged s (Some fu) (TokenOk tk) me so) ! 0)
   \<and> currentUser (fst (onAuthStateChanged s (Some fu) (TokenOk tk) me so) ! 0) = currentUser s
   \<and> exposed_loading (fst (onAuthStateChanged s (Some fu) (TokenOk tk) me so) ! 1)
   \<and> currentUser (fst (onAuthStateChanged s (Some fu) (TokenOk tk) me so) ! 1) = Some (initial_user fu)
   \<and> exposed_role (fst (onAuthStateChanged s (Some fu) (TokenOk tk) me so) ! 1) = Some (JStr ''resident'')
   \<and> \<not> exposed_loading (snd (onAuthStateChanged s (Some fu) (TokenOk tk) me so))
   \<and> exposed_role (snd (onAuthStateChanged s (Some fu) (TokenOk tk) me so))
       = (case me of
            MeSuccess userData \<Rightarrow>
              (case userData ''role'' of None \<Rightarrow> Some (JStr ''resident'') | Some r \<Rightarrow> Some r)
          | _ \<Rightarrow> Some (JStr ''resident''))"
  by (cases me)
     (simp_all add: onAuthStateChanged_def fetchBackendUserData_def Let_def exposed_loading_def
                    exposed_role_def initial_user_def merge_user_role)

theorem default_role_while_loading_witness:
  "exposed_loading (fst (onAuthStateChanged ex_initial_state (Some ex_fb_user) (TokenOk ''abc'')
                           (MeSuccess [''role'' \<mapsto> JStr ''admin'']) True) ! 1)
   \<and> exposed_role (fst (onAuthStateChanged ex_initial_state (Some ex_fb_user) (TokenOk ''abc'')
                           (MeSuccess [''role'' \<mapsto> JStr ''admin'']) True) ! 1) = Some (JStr ''resident'')
   \<and> \<not> exposed_loading (snd (onAuthStateChanged ex_initial_state (Some ex_fb_user) (TokenOk ''abc'')
                           (MeSuccess [''role'' \<mapsto> JStr ''admin'']) True))
   \<and> exposed_role (snd (onAuthStateChanged ex_initial_state (Some ex_fb_user) (TokenOk ''abc'')
                           (MeSuccess [''role'' \<mapsto> JStr ''admin'']) True)) = Some (JStr ''admin'')"
proof -
  note t = default_role_while_loading [where s = ex_initial_state and fu = ex_fb_user and tk = "''abc''"
      and me = "MeSuccess [''role'' \<mapsto> JStr ''admin'']" and so = True]
  have fin: "exposed_role (snd (onAuthStateChanged ex_initial_state (Some ex_fb_user) (TokenOk ''abc'')
                           (MeSuccess [''role'' \<mapsto> JStr ''admin'']) True)) = Some (JStr ''admin'')"
    using t [THEN conjunct2, THEN conjunct2, THEN conjunct2, THEN conjunct2, THEN conjunct2,
             THEN conjunct2, THEN conjunct2]
    by simp
  show ?thesis
    by (intro conjI fin
          t [THEN conjunct2, THEN conjunct2, THEN conjunct2, THEN conjunct1]
          t [THEN conjunct2, THEN conjunct2, THEN conjunct2, THEN conjunct2, THEN conjunct2, THEN conjunct1]
          t [THEN conjunct2, THEN conjunct2, THEN conjunct2, THEN conjunct2, THEN conjunct2,
             THEN conjunct2, THEN conjunct1])
qed

text \<open>
  C9 as stated fails: after start-up, when Alice signs in, the state held during the call of
  \<open>/auth/me\<close> reports loading and exposes the role \<open>resident\<close>.
\<close>

theorem role_exposed_while_loading:
  "\<not> list_all role_hidden_while_loading
        (fst (onAuthStateChanged ex_initial_state (Some ex_fb_user) (TokenOk ''abc'') MeThrows True))"
  by (simp add: onAuthStateChanged_def fetchBackendUserData_def Let_def role_hidden_while_loading_def
                exposed_loading_def exposed_role_def initial_user_def ex_initial_state_def)

end
